theory Spec2Isabelle
  imports
    Main
    "HOL-Library.Sublist"
    "HOL-Library.Multiset"
    "HOL-Library.Char_ord"
    "HOL-Library.List_Lexorder"
    "HOL-Library.Product_Lexorder"
begin

section \<open>Python strings\<close>

text \<open>
  \<^verbatim>\<open>str.replace(old, new)\<close>: one pass from the left over the string; at each position
  where \<open>old\<close> starts, \<open>new\<close> is emitted and the scan goes on after the occurrence, so
  the occurrences replaced do not overlap and the text produced is never scanned
  again. For the empty pattern Python puts \<open>new\<close> before every character and at the
  end.
\<close>

function str_replace :: "string \<Rightarrow> string \<Rightarrow> string \<Rightarrow> string" where
  "str_replace old new s =
     (if old = [] then new @ concat (map (\<lambda>c. c # new) s)
      else if s = [] then []
      else if prefix old s then new @ str_replace old new (drop (length old) s)
      else hd s # str_replace old new (tl s))"
  by pat_completeness auto
termination
  by (relation "measure (\<lambda>(old, new, s). length s)") auto

declare str_replace.simps [simp del]

text \<open>\<^verbatim>\<open>old in s\<close> for strings: \<open>old\<close> occurs in \<open>s\<close> as a contiguous substring.\<close>

definition str_contains :: "string \<Rightarrow> string \<Rightarrow> bool" where
  "str_contains old s = sublist old s"

text \<open>\<^verbatim>\<open>str.lower()\<close> on ASCII text: the letters A to Z are moved to a to z.\<close>

definition char_lower :: "char \<Rightarrow> char" where
  "char_lower c =
     (if CHR ''A'' \<le> c \<and> c \<le> CHR ''Z'' then char_of (of_char c + (32::nat)) else c)"

definition str_lower :: "string \<Rightarrow> string" where
  "str_lower s = map char_lower s"

text \<open>
  \<^verbatim>\<open>repr\<close> of a string of code points below 256. The string stands between single
  quotes, or between double quotes when it holds a single quote and no double quote.
  The backslash and the quote in use are escaped with a backslash; tab, newline and
  carriage return are written \<^verbatim>\<open>\t\<close>, \<^verbatim>\<open>\n\<close>, \<^verbatim>\<open>\r\<close>; every other code point that
  is not printable (below 32, from 127 to 160, and 173) is written \<^verbatim>\<open>\x\<close> with two
  hexadecimal digits.
\<close>

definition hex_digit :: "nat \<Rightarrow> char" where
  "hex_digit d = (if d < 10 then char_of (48 + d) else char_of (87 + d))"

definition repr_char :: "char \<Rightarrow> char \<Rightarrow> string" where
  "repr_char quote c =
     (let n = (of_char c :: nat)
      in if c = quote \<or> c = CHR 0x5C then [CHR 0x5C, c]
         else if c = CHR 0x09 then [CHR 0x5C, CHR ''t'']
         else if c = CHR 0x0A then [CHR 0x5C, CHR ''n'']
         else if c = CHR 0x0D then [CHR 0x5C, CHR ''r'']
         else if n < 32 \<or> (127 \<le> n \<and> n \<le> 160) \<or> n = 173
         then [CHR 0x5C, CHR ''x'', hex_digit (n div 16), hex_digit (n mod 16)]
         else [c])"

definition str_repr :: "string \<Rightarrow> string" where
  "str_repr s =
     (let quote = (if CHR 0x27 \<in> set s \<and> CHR 0x22 \<notin> set s then CHR 0x22 else CHR 0x27)
      in quote # concat (map (repr_char quote) s) @ [quote])"

section \<open>Exceptions\<close>

text \<open>
  What a call into a cloud SDK can raise, as far as the configurators tell the cases
  apart: botocore's \<^verbatim>\<open>ClientError\<close> with the error code of its response (if any),
  googleapiclient's \<^verbatim>\<open>HttpError\<close> with its status code, google.auth's
  \<^verbatim>\<open>DefaultCredentialsError\<close>, \<^verbatim>\<open>gcp_auth.NotEnoughPermissionError\<close>, and any other
  exception.
\<close>

datatype sdk_error =
  ClientError "string option"
| HttpError nat
| DefaultCredentialsError
| NotEnoughPermissionError
| OtherSdkError string

section \<open>hub/services/backends/base.py\<close>

text \<open>
  \<^verbatim>\<open>class BackendConfigError(Exception)\<close> with its three attributes. The constructor's
  defaults are \<^verbatim>\<open>message=""\<close>, \<^verbatim>\<open>code="invalid_config"\<close> and \<^verbatim>\<open>fields=None\<close>, the latter
  stored as the empty list. An argument that the raise site leaves out is \<open>None\<close> here.
\<close>

datatype BackendConfigError =
  BackendConfigError (message: string) (code: string) (fields: "string list list")

definition mk_BackendConfigError ::
  "string option \<Rightarrow> string option \<Rightarrow> string list list option \<Rightarrow> BackendConfigError" where
  "mk_BackendConfigError msg cd flds =
     BackendConfigError
       (case msg of None \<Rightarrow> [] | Some m \<Rightarrow> m)
       (case cd of None \<Rightarrow> ''invalid_config'' | Some c \<Rightarrow> c)
       (case flds of None \<Rightarrow> [] | Some f \<Rightarrow> f)"

text \<open>Everything a configurator method can raise.\<close>

datatype exn =
  Raised_BackendConfigError BackendConfigError
| Raised_sdk sdk_error
| KeyError string
| IndexError
| TypeError
| AttributeError
| AssertionError

type_synonym 'a result = "exn + 'a"

definition raise_BackendConfigError ::
  "string option \<Rightarrow> string option \<Rightarrow> string list list option \<Rightarrow> 'a result" where
  "raise_BackendConfigError msg cd flds = Inl (Raised_BackendConfigError (mk_BackendConfigError msg cd flds))"

text \<open>Sequencing: the first exception ends the computation.\<close>

definition and_then :: "'a result \<Rightarrow> ('a \<Rightarrow> 'b result) \<Rightarrow> 'b result" where
  "and_then r f = (case r of Inl e \<Rightarrow> Inl e | Inr x \<Rightarrow> f x)"

text \<open>A call into an SDK, its exception passed on as it is.\<close>

definition sdk_call :: "sdk_error + 'a \<Rightarrow> 'a result" where
  "sdk_call r = (case r of Inl e \<Rightarrow> Inl (Raised_sdk e) | Inr x \<Rightarrow> Inr x)"

text \<open>\<^verbatim>\<open>d[k]\<close> on a dictionary: \<^verbatim>\<open>KeyError\<close> when the key is missing.\<close>

definition dict_get :: "(string \<rightharpoonup> 'v) \<Rightarrow> string \<Rightarrow> 'v result" where
  "dict_get d k = (case d k of None \<Rightarrow> Inl (KeyError k) | Some v \<Rightarrow> Inr v)"

text \<open>The elements of the hub's project forms (\<^verbatim>\<open>hub.models\<close>).\<close>

record ProjectElementValue =
  pev_value :: string
  pev_label :: string

record ProjectElement =
  selected :: "string option"
  pe_values :: "ProjectElementValue list"

section \<open>hub/services/backends/aws/configurator.py\<close>

datatype AWSProjectCreds =
  AWSProjectAccessKeyCreds (access_key: string) (secret_key: string)
| AWSProjectDefaultCreds

record AWSProjectConfig =
  region_name :: string
  region_name_title :: string
  s3_bucket_name :: string
  ec2_subnet_id :: "string option"

record AWSProjectConfigWithCreds = AWSProjectConfig +
  credentials :: AWSProjectCreds

text \<open>\<^verbatim>\<open>project_config.credentials.__root__.dict()\<close>: the credentials as a dictionary.\<close>

fun creds_dict :: "AWSProjectCreds \<Rightarrow> (string \<times> string) list" where
  "creds_dict (AWSProjectAccessKeyCreds a s) =
     [(''type'', ''access_key''), (''access_key'', a), (''secret_key'', s)]"
| "creds_dict AWSProjectDefaultCreds = [(''type'', ''default'')]"

text \<open>
  \<^verbatim>\<open>AWSConfigurator.create_config_auth_data_from_project_config\<close>: the bucket name is
  rewritten with \<^verbatim>\<open>replace("s3://", "")\<close>, then the configuration part (the fields of
  \<^verbatim>\<open>AWSProjectConfig\<close>) and the credentials are returned as two dictionaries.
\<close>

definition aws_create_config_auth_data_from_project_config ::
  "AWSProjectConfigWithCreds \<Rightarrow> AWSProjectConfig \<times> (string \<times> string) list" where
  "aws_create_config_auth_data_from_project_config project_config =
     (let project_config' =
            project_config\<lparr> s3_bucket_name :=
              str_replace ''s3://'' [] (s3_bucket_name project_config) \<rparr>
      in (AWSProjectConfig.truncate project_config', creds_dict (credentials project_config')))"

subsection \<open>configure_project\<close>

definition regions :: "(string \<times> string) list" where
  "regions =
     [(''US East, N. Virginia'', ''us-east-1''),
      (''US East, Ohio'', ''us-east-2''),
      (''US West, N. California'', ''us-west-1''),
      (''US West, Oregon'', ''us-west-2''),
      (''Asia Pacific, Singapore'', ''ap-southeast-1''),
      (''Canada, Central'', ''ca-central-1''),
      (''Europe, Frankfurt'', ''eu-central-1''),
      (''Europe, Ireland'', ''eu-west-1''),
      (''Europe, London'', ''eu-west-2''),
      (''Europe, Paris'', ''eu-west-3''),
      (''Europe, Stockholm'', ''eu-north-1'')]"

text \<open>
  A boto3 \<^verbatim>\<open>Session\<close>: its region and the access key pair it was built with. A session
  built without a region takes the region of the ambient profile.
\<close>

record Session =
  session_region_name :: "string option"
  session_keys :: "(string \<times> string) option"

text \<open>
  AWS as the configurator reaches it through boto3: the region of the ambient profile,
  \<^verbatim>\<open>sts.get_caller_identity\<close> (\<open>None\<close> when it succeeds), \<^verbatim>\<open>s3.head_bucket\<close> (the
  \<^verbatim>\<open>x-amz-bucket-region\<close> header of the response), \<^verbatim>\<open>s3.list_buckets\<close> (name and
  formatted creation date of each bucket) and \<^verbatim>\<open>ec2.describe_subnets\<close> (the subnet ids).
\<close>

record aws_cloud =
  profile_region :: "string option"
  get_caller_identity :: "Session \<Rightarrow> sdk_error option"
  head_bucket :: "Session \<Rightarrow> string \<Rightarrow> sdk_error + string"
  list_buckets :: "Session \<Rightarrow> sdk_error + (string \<times> string) list"
  describe_subnets :: "Session \<Rightarrow> sdk_error + string list"

definition new_Session ::
  "aws_cloud \<Rightarrow> string option \<Rightarrow> (string \<times> string) option \<Rightarrow> Session" where
  "new_Session aws region keys =
     \<lparr> session_region_name = (case region of None \<Rightarrow> profile_region aws | Some r \<Rightarrow> Some r),
       session_keys = keys \<rparr>"

text \<open>
  The configuration data of a project. \<^verbatim>\<open>AWSConfig.deserialize\<close> is not among the
  sources: the three attributes of its result that \<^verbatim>\<open>configure_project\<close> reads are given
  here next to the \<^verbatim>\<open>credentials\<close> entry of the dictionary.
\<close>

record aws_config_data =
  cd_region_name :: "string option"
  cd_bucket_name :: "string option"
  cd_subnet_id :: "string option"
  cd_credentials :: "(string \<rightharpoonup> string) option"

record AWSBucketProjectElementValue =
  bucket_value_name :: string
  bucket_value_created :: string
  bucket_value_region :: "string option"

record AWSBucketProjectElement =
  bucket_selected :: "string option"
  bucket_values :: "AWSBucketProjectElementValue list"

record AWSProjectValues =
  default_credentials :: bool
  pv_region_name :: "ProjectElement option"
  pv_s3_bucket_name :: "AWSBucketProjectElement option"
  pv_ec2_subnet_id :: "ProjectElement option"

definition new_AWSProjectValues :: AWSProjectValues where
  "new_AWSProjectValues =
     \<lparr> default_credentials = False, pv_region_name = None,
       pv_s3_bucket_name = None, pv_ec2_subnet_id = None \<rparr>"

definition valid_credentials :: "aws_cloud \<Rightarrow> Session \<Rightarrow> bool result" where
  "valid_credentials aws session =
     (case get_caller_identity aws session of
        None \<Rightarrow> Inr True
      | Some (ClientError c) \<Rightarrow> Inr False
      | Some e \<Rightarrow> Inl (Raised_sdk e))"

definition raise_invalid_credentials_error :: "string list list option \<Rightarrow> 'a result" where
  "raise_invalid_credentials_error flds =
     raise_BackendConfigError (Some ''Invalid credentials'') (Some ''invalid_credentials'') flds"

definition get_hub_regions :: "string option \<Rightarrow> ProjectElement" where
  "get_hub_regions default_region =
     \<lparr> selected = default_region,
       pe_values = map (\<lambda>r. \<lparr> pev_value = snd r, pev_label = fst r \<rparr>) regions \<rparr>"

definition validate_hub_bucket ::
  "aws_cloud \<Rightarrow> Session \<Rightarrow> string option \<Rightarrow> string \<Rightarrow> unit result" where
  "validate_hub_bucket aws session region bucket_name =
     (case head_bucket aws session bucket_name of
        Inr bucket_region \<Rightarrow>
          if Some (str_lower bucket_region) \<noteq> region
          then raise_BackendConfigError (Some ''The bucket belongs to another AWS region'')
                 (Some ''invalid_bucket'') (Some [[''s3_bucket_name'']])
          else Inr ()
      | Inl (ClientError c) \<Rightarrow>
          if c \<in> {Some ''404'', Some ''403''}
          then raise_BackendConfigError (Some (''The bucket '' @ bucket_name @ '' does not exist''))
                 (Some ''invalid_bucket'') (Some [[''s3_bucket_name'']])
          else Inl (Raised_sdk (ClientError c))
      | Inl e \<Rightarrow> Inl (Raised_sdk e))"

definition aws_get_hub_buckets ::
  "aws_cloud \<Rightarrow> Session \<Rightarrow> string option \<Rightarrow> string option \<Rightarrow> AWSBucketProjectElement result" where
  "aws_get_hub_buckets aws session region default_bucket =
     and_then (case default_bucket of
                 None \<Rightarrow> Inr ()
               | Some b \<Rightarrow> validate_hub_bucket aws session region b)
       (\<lambda>_. and_then (sdk_call (list_buckets aws session))
          (\<lambda>buckets. Inr \<lparr> bucket_selected = default_bucket,
                           bucket_values =
                             map (\<lambda>b. \<lparr> bucket_value_name = fst b, bucket_value_created = snd b,
                                        bucket_value_region = region \<rparr>) buckets \<rparr>))"

definition get_hub_subnet ::
  "aws_cloud \<Rightarrow> Session \<Rightarrow> string option \<Rightarrow> ProjectElement result" where
  "get_hub_subnet aws session default_subnet =
     and_then (sdk_call (describe_subnets aws session))
       (\<lambda>subnets. Inr \<lparr> selected = default_subnet,
                        pe_values = map (\<lambda>i. \<lparr> pev_value = i, pev_label = i \<rparr>) subnets \<rparr>)"

text \<open>
  The credentials stage of \<^verbatim>\<open>configure_project\<close>: with credentials of type
  \<^verbatim>\<open>access_key\<close> a session is built from the key pair and checked, with any other type the
  default credentials must have been found valid. The result is the session to go on
  with.
\<close>

definition aws_check_credentials ::
  "aws_cloud \<Rightarrow> string option \<Rightarrow> (string \<rightharpoonup> string) \<Rightarrow> bool \<Rightarrow> Session \<Rightarrow> Session result" where
  "aws_check_credentials aws region credentials_data default_ok session =
     and_then (dict_get credentials_data ''type'')
       (\<lambda>ty. if ty = ''access_key''
              then and_then (dict_get credentials_data ''access_key'')
                     (\<lambda>ak. and_then (dict_get credentials_data ''secret_key'')
                        (\<lambda>sk. let session' = new_Session aws region (Some (ak, sk))
                              in and_then (valid_credentials aws session')
                                   (\<lambda>ok. if \<not> ok
                                          then raise_invalid_credentials_error
                                                 (Some [[''credentials'', ''access_key''],
                                                        [''credentials'', ''secret_key'']])
                                          else Inr session')))
              else if \<not> default_ok
              then raise_invalid_credentials_error (Some [[''credentials'']])
              else Inr session)"

definition aws_configure_project :: "aws_cloud \<Rightarrow> aws_config_data \<Rightarrow> AWSProjectValues result" where
  "aws_configure_project aws config_data =
     (if cd_region_name config_data \<noteq> None
         \<and> the (cd_region_name config_data) \<notin> set (map snd regions)
      then raise_BackendConfigError
             (Some (''Invalid AWS region '' @ the (cd_region_name config_data))) None None
      else
        let session0 = new_Session aws None None;
            session = (if session_region_name session0 = None
                       then new_Session aws (cd_region_name config_data) None
                       else session0)
        in and_then (valid_credentials aws session)
             (\<lambda>default_ok.
                let project_values = new_AWSProjectValues\<lparr> default_credentials := default_ok \<rparr>
                in case cd_credentials config_data of
                     None \<Rightarrow> Inr project_values
                   | Some credentials_data \<Rightarrow>
                       and_then (aws_check_credentials aws (cd_region_name config_data)
                                   credentials_data default_ok session)
                         (\<lambda>session.
                            and_then (aws_get_hub_buckets aws session
                                        (cd_region_name config_data) (cd_bucket_name config_data))
                              (\<lambda>buckets.
                                 and_then (get_hub_subnet aws session (cd_subnet_id config_data))
                                   (\<lambda>subnet.
                                      Inr (project_values
                                            \<lparr> pv_region_name :=
                                                Some (get_hub_regions (session_region_name session)),
                                              pv_s3_bucket_name := Some buckets,
                                              pv_ec2_subnet_id := Some subnet \<rparr>))))))"

section \<open>hub/services/backends/gcp/configurator.py\<close>

definition DEFAULT_GEOGRAPHIC_AREA :: string where
  "DEFAULT_GEOGRAPHIC_AREA = ''North America''"

record gcp_location =
  loc_name :: string
  loc_regions :: "string list"
  loc_default_region :: string
  loc_default_zone :: string

definition GCP_LOCATIONS :: "gcp_location list" where
  "GCP_LOCATIONS =
     [\<lparr> loc_name = ''North America'',
        loc_regions = [''northamerica-northeast1'', ''northamerica-northeast2'',
          ''us-central1'', ''us-east1'', ''us-east4'', ''us-east5'', ''us-south1'',
          ''us-west1'', ''us-west2'', ''us-west3'', ''us-west4''],
        loc_default_region = ''us-west1'', loc_default_zone = ''us-west1-b'' \<rparr>,
      \<lparr> loc_name = ''South America'',
        loc_regions = [''southamerica-east1'', ''southamerica-west1''],
        loc_default_region = ''southamerica-east1'',
        loc_default_zone = ''southamerica-east1-b'' \<rparr>,
      \<lparr> loc_name = ''Europe'',
        loc_regions = [''europe-central2'', ''europe-north1'', ''europe-southwest1'',
          ''europe-west1'', ''europe-west2'', ''europe-west3'', ''europe-west4'',
          ''europe-west6'', ''europe-west8'', ''europe-west9''],
        loc_default_region = ''europe-west4'', loc_default_zone = ''europe-west4-a'' \<rparr>,
      \<lparr> loc_name = ''Asia'',
        loc_regions = [''asia-east1'', ''asia-east2'', ''asia-northeast1'',
          ''asia-northeast2'', ''asia-northeast3'', ''asia-south1'', ''asia-south2'',
          ''asia-southeast1'', ''asia-southeast2''],
        loc_default_region = ''asia-southeast1'', loc_default_zone = ''asia-southeast1-b'' \<rparr>,
      \<lparr> loc_name = ''Middle East'',
        loc_regions = [''me-west1''],
        loc_default_region = ''me-west1'', loc_default_zone = ''me-west1-b'' \<rparr>,
      \<lparr> loc_name = ''Australia'',
        loc_regions = [''australia-southeast1'', ''australia-southeast2''],
        loc_default_region = ''australia-southeast1'',
        loc_default_zone = ''australia-southeast1-c'' \<rparr>]"

text \<open>
  Google Cloud as the configurator reaches it. Credentials are an opaque value \<open>'c\<close>.
  \<^item> \<open>auth_default\<close>: \<^verbatim>\<open>google.auth.default()\<close>, credentials and project id;
  \<^item> \<open>from_service_account_info\<close>: \<^verbatim>\<open>json.loads\<close> of the key data followed by
    \<^verbatim>\<open>Credentials.from_service_account_info\<close>, with the project id of the result;
  \<^item> \<open>storage_list_buckets\<close>: name and location of every bucket;
  \<^item> \<open>regions_list\<close>: name and zone URLs of every region of the project;
  \<^item> \<open>networks_list\<close>: name and subnetwork URLs of every network of the project;
  \<^item> \<open>iam_create_service_account\<close>: the IAM \<^verbatim>\<open>serviceAccounts().create\<close> call, returning
    the email of the new account;
  \<^item> \<open>get_iam_policy\<close>, \<open>set_iam_policy\<close>: the resource manager's policy calls, a policy
    being its \<^verbatim>\<open>bindings\<close> entry (role and members of each binding), \<open>None\<close> when the
    policy has no such entry;
  \<^item> \<open>create_service_account_key\<close>: \<^verbatim>\<open>gcp_auth.create_service_account_key\<close>.

  The helpers of \<^verbatim>\<open>gcp_utils\<close> are not among the sources and are taken as they come:
  \<open>get_resource_name\<close>, \<open>get_subnet_region\<close>, \<open>get_subnet_name\<close> and
  \<open>get_service_account_email\<close>.
\<close>

record Region =
  region_name' :: string
  region_zones :: "string list"

record Network =
  network_name :: string
  subnetworks :: "string list"

type_synonym policy = "(string \<times> string list) list"

record 'c gcp_cloud =
  auth_default :: "sdk_error + 'c \<times> string"
  from_service_account_info :: "string \<Rightarrow> sdk_error + 'c \<times> string"
  storage_list_buckets :: "'c \<Rightarrow> sdk_error + (string \<times> string) list"
  regions_list :: "'c \<Rightarrow> string \<Rightarrow> sdk_error + Region list"
  networks_list :: "'c \<Rightarrow> string \<Rightarrow> sdk_error + Network list"
  iam_create_service_account :: "'c \<Rightarrow> string \<Rightarrow> string \<Rightarrow> sdk_error + string"
  get_iam_policy :: "'c \<Rightarrow> string \<Rightarrow> sdk_error + policy option"
  set_iam_policy :: "'c \<Rightarrow> string \<Rightarrow> policy option \<Rightarrow> sdk_error + unit"
  create_service_account_key :: "'c \<Rightarrow> string \<Rightarrow> string \<Rightarrow> sdk_error + unit"
  get_resource_name :: "string \<Rightarrow> string"
  get_subnet_region :: "string \<Rightarrow> string"
  get_subnet_name :: "string \<Rightarrow> string"
  get_service_account_email :: "string \<Rightarrow> string \<Rightarrow> string"

text \<open>
  The two attributes a \<^verbatim>\<open>GCPConfigurator\<close> keeps between its methods,
  \<^verbatim>\<open>self.credentials\<close> and \<^verbatim>\<open>self.project_id\<close>. The project id is taken to be a string,
  as its concatenation with \<^verbatim>\<open>"projects/"\<close> supposes.
\<close>

record 'c GCPConfigurator =
  self_credentials :: 'c
  self_project_id :: string

text \<open>
  The configuration dictionary of a GCP project: the entries \<^verbatim>\<open>configure_project\<close> reads
  with \<^verbatim>\<open>get\<close>.
\<close>

record gcp_config_data =
  gcd_credentials :: "(string \<rightharpoonup> string) option"
  gcd_area :: "string option"
  gcd_region :: "string option"
  gcd_zone :: "string option"
  gcd_bucket_name :: "string option"
  gcd_vpc :: "string option"
  gcd_subnet :: "string option"

record GCPVPCSubnetProjectElementValue =
  vs_vpc :: string
  vs_subnet :: string
  vs_label :: string

record GCPVPCSubnetProjectElement =
  vs_selected :: string
  vs_values :: "GCPVPCSubnetProjectElementValue list"

record GCPProjectValues =
  gcp_default_credentials :: bool
  pv_area :: "ProjectElement option"
  pv_region :: "ProjectElement option"
  pv_zone :: "ProjectElement option"
  pv_bucket_name :: "ProjectElement option"
  pv_vpc_subnet :: "GCPVPCSubnetProjectElement option"

definition new_GCPProjectValues :: GCPProjectValues where
  "new_GCPProjectValues =
     \<lparr> gcp_default_credentials = False, pv_area = None, pv_region = None, pv_zone = None,
       pv_bucket_name = None, pv_vpc_subnet = None \<rparr>"

definition element_of :: "string option \<Rightarrow> string list \<Rightarrow> ProjectElement" where
  "element_of sel names =
     \<lparr> selected = sel, pe_values = map (\<lambda>n. \<lparr> pev_value = n, pev_label = n \<rparr>) names \<rparr>"

definition get_hub_geographic_area :: "string option \<Rightarrow> ProjectElement result" where
  "get_hub_geographic_area default_area =
     (let area_names = sort (map loc_name GCP_LOCATIONS);
          default_area = (case default_area of None \<Rightarrow> DEFAULT_GEOGRAPHIC_AREA | Some a \<Rightarrow> a)
      in if default_area \<notin> set area_names
         then raise_BackendConfigError (Some (''Invalid GCP area '' @ default_area)) None None
         else Inr (element_of (Some default_area) area_names))"

definition get_location :: "string \<Rightarrow> gcp_location option" where
  "get_location area = find (\<lambda>location. loc_name location = area) GCP_LOCATIONS"

text \<open>\<^verbatim>\<open>xs[0]\<close> after \<^verbatim>\<open>if default is None\<close>: \<^verbatim>\<open>IndexError\<close> on the empty list.\<close>

definition default_or_first :: "string option \<Rightarrow> string list \<Rightarrow> string result" where
  "default_or_first d names =
     (case d of
        Some x \<Rightarrow> Inr x
      | None \<Rightarrow> (case names of [] \<Rightarrow> Inl IndexError | n # _ \<Rightarrow> Inr n))"

definition get_hub_region ::
  "'c gcp_cloud \<Rightarrow> 'c GCPConfigurator \<Rightarrow> gcp_location \<Rightarrow> string option
     \<Rightarrow> (ProjectElement \<times> (string \<rightharpoonup> Region)) result" where
  "get_hub_region gcp self location default_region =
     and_then (sdk_call (regions_list gcp (self_credentials self) (self_project_id self)))
       (\<lambda>regions.
          let region_names =
                sort_key (\<lambda>name. (name \<noteq> loc_default_region location, name))
                  (filter (\<lambda>n. n \<in> set (loc_regions location)) (map region_name' regions))
          in and_then (default_or_first default_region region_names)
               (\<lambda>default_region.
                  if default_region \<notin> set region_names
                  then raise_BackendConfigError
                         (Some (''Invalid GCP region '' @ default_region @ '' in area ''
                                  @ loc_name location)) None None
                  else Inr (element_of (Some default_region) region_names,
                            map_of (rev (map (\<lambda>r. (region_name' r, r)) regions)))))"

definition get_hub_zone ::
  "'c gcp_cloud \<Rightarrow> gcp_location \<Rightarrow> Region \<Rightarrow> string option \<Rightarrow> ProjectElement result" where
  "get_hub_zone gcp location region default_zone =
     (let zone_names =
            sort_key (\<lambda>name. (name \<noteq> loc_default_zone location, name))
              (map (get_resource_name gcp) (region_zones region))
      in and_then (default_or_first default_zone zone_names)
           (\<lambda>default_zone.
              if default_zone \<notin> set zone_names
              then raise_BackendConfigError
                     (Some (''Invalid GCP zone '' @ default_zone @ '' in region ''
                              @ region_name' region)) None None
              else Inr (element_of (Some default_zone) zone_names)))"

definition gcp_get_hub_buckets ::
  "'c gcp_cloud \<Rightarrow> 'c GCPConfigurator \<Rightarrow> string \<Rightarrow> string option \<Rightarrow> ProjectElement result" where
  "gcp_get_hub_buckets gcp self region default_bucket =
     and_then (sdk_call (storage_list_buckets gcp (self_credentials self)))
       (\<lambda>buckets.
          let bucket_names = map fst (filter (\<lambda>b. str_lower (snd b) = region) buckets)
          in if default_bucket \<noteq> None \<and> the default_bucket \<notin> set bucket_names
             then raise_BackendConfigError
                    (Some (''Invalid bucket '' @ the default_bucket @ '' for region '' @ region))
                    (Some ''invalid_bucket'') (Some [[''bucket_name'']])
             else Inr (element_of default_bucket bucket_names))"

definition no_preference_vpc_subnet :: "string \<times> string" where
  "no_preference_vpc_subnet = (''default'', ''default'')"

definition get_hub_vpc_subnet ::
  "'c gcp_cloud \<Rightarrow> 'c GCPConfigurator \<Rightarrow> string \<Rightarrow> string option \<Rightarrow> string option
     \<Rightarrow> GCPVPCSubnetProjectElement result" where
  "get_hub_vpc_subnet gcp self region default_vpc default_subnet =
     (let default_vpc = (case default_vpc of None \<Rightarrow> ''default'' | Some v \<Rightarrow> v);
          default_subnet = (case default_subnet of None \<Rightarrow> ''default'' | Some v \<Rightarrow> v)
      in and_then (sdk_call (networks_list gcp (self_credentials self) (self_project_id self)))
           (\<lambda>networks.
              let vpc_subnet_list =
                    concat (map (\<lambda>network.
                      map (\<lambda>subnet. (network_name network, get_subnet_name gcp subnet))
                        (filter (\<lambda>subnet. get_subnet_region gcp subnet = region)
                           (subnetworks network))) networks)
              in if (default_vpc, default_subnet) \<notin> set vpc_subnet_list
                 then raise_BackendConfigError
                        (Some (''Invalid VPC subnet ('' @ str_repr default_vpc @ '', ''
                                 @ str_repr default_subnet @ '')'')) None None
                 else
                   let selected' =
                         (if (default_vpc, default_subnet) \<noteq> no_preference_vpc_subnet
                          then default_subnet @ '' ('' @ default_vpc @ '')''
                          else ''No preference (default)'')
                   in Inr \<lparr> vs_selected = selected',
                            vs_values =
                              map (\<lambda>(vpc, subnet).
                                     \<lparr> vs_vpc = vpc, vs_subnet = subnet,
                                       vs_label =
                                         (if (subnet, vpc) \<noteq> no_preference_vpc_subnet
                                          then subnet @ '' ('' @ vpc @ '')''
                                          else ''No preference (default)'') \<rparr>)
                                (sort_key (\<lambda>t. t \<noteq> no_preference_vpc_subnet) vpc_subnet_list) \<rparr>))"

text \<open>
  \<^verbatim>\<open>_auth\<close> sets both attributes of the configurator; every public method calls it (or
  \<^verbatim>\<open>google.auth.default()\<close> itself) before reading them, so the attributes are results
  here and never inputs.
\<close>

definition auth :: "'c gcp_cloud \<Rightarrow> (string \<rightharpoonup> string) \<Rightarrow> 'c GCPConfigurator result" where
  "auth gcp credentials_data =
     and_then (dict_get credentials_data ''type'')
       (\<lambda>ty. and_then
                (if ty = ''service_account''
                 then and_then (dict_get credentials_data ''data'')
                        (\<lambda>d. sdk_call (from_service_account_info gcp d))
                 else sdk_call (auth_default gcp))
                (\<lambda>(c, p). Inr \<lparr> self_credentials = c, self_project_id = p \<rparr>))"

text \<open>
  The credentials stage of \<^verbatim>\<open>configure_project\<close>. \<open>default_self\<close> is what
  \<^verbatim>\<open>google.auth.default()\<close> gave, \<open>None\<close> after a \<^verbatim>\<open>DefaultCredentialsError\<close>. With a
  service account every exception of the \<^verbatim>\<open>try\<close> block becomes the configuration error.
\<close>

definition gcp_check_credentials ::
  "'c gcp_cloud \<Rightarrow> (string \<rightharpoonup> string) \<Rightarrow> 'c GCPConfigurator option \<Rightarrow> 'c GCPConfigurator result" where
  "gcp_check_credentials gcp credentials_data default_self =
     and_then (dict_get credentials_data ''type'')
       (\<lambda>ty. if ty = ''service_account''
              then (case auth gcp credentials_data of
                      Inl e \<Rightarrow> raise_invalid_credentials_error (Some [[''credentials'', ''data'']])
                    | Inr self \<Rightarrow>
                        (case storage_list_buckets gcp (self_credentials self) of
                           Inl e \<Rightarrow> raise_invalid_credentials_error
                                      (Some [[''credentials'', ''data'']])
                         | Inr _ \<Rightarrow> Inr self))
              else (case default_self of
                      None \<Rightarrow> raise_invalid_credentials_error (Some [[''credentials'']])
                    | Some self \<Rightarrow> Inr self))"

definition gcp_configure_project :: "'c gcp_cloud \<Rightarrow> gcp_config_data \<Rightarrow> GCPProjectValues result" where
  "gcp_configure_project gcp config_data =
     and_then
       (case auth_default gcp of
          Inr (c, p) \<Rightarrow> Inr (Some \<lparr> self_credentials = c, self_project_id = p \<rparr>)
        | Inl DefaultCredentialsError \<Rightarrow> Inr None
        | Inl e \<Rightarrow> Inl (Raised_sdk e))
       (\<lambda>default_self.
          let project_values = new_GCPProjectValues\<lparr> gcp_default_credentials := (default_self \<noteq> None) \<rparr>
          in case gcd_credentials config_data of
               None \<Rightarrow> Inr project_values
             | Some credentials_data \<Rightarrow>
          and_then (gcp_check_credentials gcp credentials_data default_self) (\<lambda>self.
          and_then (get_hub_geographic_area (gcd_area config_data)) (\<lambda>area.
          and_then (case get_location (the (selected area)) of
                      None \<Rightarrow> Inl TypeError | Some l \<Rightarrow> Inr l) (\<lambda>location.
          and_then (get_hub_region gcp self location (gcd_region config_data)) (\<lambda>(region, regions).
          and_then (case regions (the (selected region)) of
                      None \<Rightarrow> Inl AttributeError | Some r \<Rightarrow> Inr r) (\<lambda>r.
          and_then (get_hub_zone gcp location r (gcd_zone config_data)) (\<lambda>zone.
          and_then (gcp_get_hub_buckets gcp self (the (selected region))
                      (gcd_bucket_name config_data)) (\<lambda>bucket.
          and_then (get_hub_vpc_subnet gcp self (the (selected region))
                      (gcd_vpc config_data) (gcd_subnet config_data)) (\<lambda>vpc_subnet.
          Inr (project_values
                \<lparr> pv_area := Some area, pv_region := Some region, pv_zone := Some zone,
                  pv_bucket_name := Some bucket, pv_vpc_subnet := Some vpc_subnet \<rparr>))))))))))"

subsection \<open>create_config_auth_data_from_project_config\<close>

text \<open>
  The credentials of a project form (\<^verbatim>\<open>hub.models\<close>, not among the sources): the
  service account variant, given by the dictionary of its fields, or the variant of
  type \<^verbatim>\<open>default\<close>.
\<close>

datatype GCPProjectCreds =
  GCPProjectServiceAccountCreds "(string \<times> string) list"
| GCPProjectDefaultCreds

record GCPProjectConfig =
  pc_area :: string
  pc_region :: string
  pc_zone :: string
  pc_bucket_name :: string
  pc_vpc :: string
  pc_subnet :: string

record GCPProjectConfigWithCreds = GCPProjectConfig +
  pc_credentials :: GCPProjectCreds

fun gcp_creds_dict :: "GCPProjectCreds \<Rightarrow> (string \<times> string) list" where
  "gcp_creds_dict (GCPProjectServiceAccountCreds d) = d"
| "gcp_creds_dict GCPProjectDefaultCreds = [(''type'', ''default'')]"

fun gcp_creds_type :: "GCPProjectCreds \<Rightarrow> string" where
  "gcp_creds_type (GCPProjectServiceAccountCreds d) = ''service_account''"
| "gcp_creds_type GCPProjectDefaultCreds = ''default''"

definition get_or_create_service_account ::
  "'c gcp_cloud \<Rightarrow> 'c GCPConfigurator \<Rightarrow> string \<Rightarrow> string result" where
  "get_or_create_service_account gcp self name =
     (case iam_create_service_account gcp (self_credentials self)
             (''projects/'' @ self_project_id self) name of
        Inr email \<Rightarrow> Inr email
      | Inl (HttpError status_code) \<Rightarrow>
          if status_code = 409
          then Inr (get_service_account_email gcp (self_project_id self) name)
          else if status_code = 403
          then raise_BackendConfigError
                 (Some ''Not enough permissions. Default credentials must have Service Account Admin role.'')
                 (Some ''not_enough_permissions'') None
          else Inl (Raised_sdk (HttpError status_code))
      | Inl e \<Rightarrow> Inl (Raised_sdk e))"

definition get_service_account_roles :: "string list" where
  "get_service_account_roles =
     [''roles/compute.admin'', ''roles/logging.admin'', ''roles/secretmanager.admin'',
      ''roles/storage.admin'', ''roles/iam.serviceAccountUser'']"

definition add_roles_to_policy ::
  "policy option \<Rightarrow> string \<Rightarrow> string list \<Rightarrow> policy option result" where
  "add_roles_to_policy policy service_account_email roles =
     (let member = ''serviceAccount:'' @ service_account_email
      in case policy of
           None \<Rightarrow> if roles = [] then Inr None else Inl (KeyError ''bindings'')
         | Some bindings \<Rightarrow> Inr (Some (bindings @ map (\<lambda>role. (role, [member])) roles)))"

text \<open>
  In \<^verbatim>\<open>_grant_roles_to_service_account\<close> the \<^verbatim>\<open>try\<close> block catches \<^verbatim>\<open>HttpError\<close> only:
  status 403 becomes the configuration error, any other status is raised again.
\<close>

definition http_403_to_config_error :: "string \<Rightarrow> sdk_error + 'a \<Rightarrow> 'a result" where
  "http_403_to_config_error msg r =
     (case r of
        Inr x \<Rightarrow> Inr x
      | Inl (HttpError status_code) \<Rightarrow>
          if status_code = 403
          then raise_BackendConfigError (Some msg) (Some ''not_enough_permissions'') None
          else Inl (Raised_sdk (HttpError status_code))
      | Inl e \<Rightarrow> Inl (Raised_sdk e))"

definition grant_roles_to_service_account ::
  "'c gcp_cloud \<Rightarrow> 'c GCPConfigurator \<Rightarrow> string \<Rightarrow> unit result" where
  "grant_roles_to_service_account gcp self service_account_email =
     (let msg = ''Not enough permissions. Default credentials must have Security Admin role.''
      in and_then (http_403_to_config_error msg
                     (get_iam_policy gcp (self_credentials self) (self_project_id self)))
           (\<lambda>policy.
              and_then (add_roles_to_policy policy service_account_email get_service_account_roles)
                (\<lambda>policy'.
                   http_403_to_config_error msg
                     (set_iam_policy gcp (self_credentials self) (self_project_id self) policy'))))"

definition check_if_can_create_service_account_key ::
  "'c gcp_cloud \<Rightarrow> 'c GCPConfigurator \<Rightarrow> string \<Rightarrow> unit result" where
  "check_if_can_create_service_account_key gcp self service_account_email =
     (case create_service_account_key gcp (self_credentials self) (self_project_id self)
             service_account_email of
        Inr u \<Rightarrow> Inr ()
      | Inl NotEnoughPermissionError \<Rightarrow>
          raise_BackendConfigError
            (Some ''Not enough permissions. Default credentials must have Service Account Key Admin role.'')
            (Some ''not_enough_permissions'') None
      | Inl e \<Rightarrow> Inl (Raised_sdk e))"

definition gcp_create_config_auth_data_from_project_config ::
  "'c gcp_cloud \<Rightarrow> GCPProjectConfigWithCreds
     \<Rightarrow> (GCPProjectConfig \<times> (string \<times> string) list) result" where
  "gcp_create_config_auth_data_from_project_config gcp project_config =
     (let config_data = GCPProjectConfig.truncate project_config;
          auth_data = gcp_creds_dict (pc_credentials project_config)
      in if gcp_creds_type (pc_credentials project_config) = ''default''
         then
           and_then (auth gcp (map_of auth_data)) (\<lambda>self.
           and_then (get_or_create_service_account gcp self
                       (pc_bucket_name project_config @ ''-sa'')) (\<lambda>service_account_email.
           and_then (grant_roles_to_service_account gcp self service_account_email) (\<lambda>_.
           and_then (check_if_can_create_service_account_key gcp self service_account_email) (\<lambda>_.
           Inr (config_data,
                auth_data @ [(''service_account_email'', service_account_email)])))))
         else Inr (config_data, auth_data))"

section \<open>The data of the core\<close>

text \<open>
  \<^verbatim>\<open>core.job\<close>, \<^verbatim>\<open>core.run\<close>, \<^verbatim>\<open>core.secret\<close>, \<^verbatim>\<open>core.artifact\<close> and
  \<^verbatim>\<open>core.log_event\<close> are not among the sources; the types below hold what the data
  model of the specification gives them.
\<close>

datatype JobStatus =
  SUBMITTED | PENDING | RUNNING | DOWNLOADING | UPLOADING | STOPPING
| STOPPED | ABORTED | FAILED | DONE

record JobHead =
  jh_job_id :: string
  jh_run_name :: string
  jh_status :: JobStatus
  jh_submitted_at :: int

record RunHead =
  rh_run_name :: string
  rh_status :: JobStatus
  rh_submitted_at :: int
  rh_interrupted :: bool

record Secret =
  secret_name :: string
  secret_value :: string

record Artifact =
  artifact_job_id :: string
  artifact_name :: string
  artifact_path :: string
  artifact_size :: nat

record LogEvent =
  timestamp :: int
  stream_id :: string
  log_message :: string

section \<open>backend/aws/__init__.py\<close>

text \<open>
  An \<^verbatim>\<open>AwsBackend\<close>: the three components built by \<^verbatim>\<open>__init__\<close>, the logs client that
  \<^verbatim>\<open>_logs_client()\<close> gives, and the bucket name of the backend configuration.
\<close>

record ('s, 'c, 'm, 'l) AwsBackend =
  storage :: 's
  compute :: 'c
  secrets_manager :: 'm
  logs_client :: 'l
  bucket_name :: string

text \<open>What the secret functions of the base modules can raise.\<close>

datatype backend_error = AlreadyExists | NotFound

text \<open>
  The modules \<^verbatim>\<open>backend.base\<close> and \<^verbatim>\<open>backend.aws.logs\<close> are not among the sources:
  each method below takes the functions of these modules that it calls as its first
  arguments, named after the module and the function. A function that writes returns
  the components it has changed.
\<close>

definition list_job_heads ::
  "('s \<Rightarrow> string \<Rightarrow> string option \<Rightarrow> 'jh)
     \<Rightarrow> ('s, 'c, 'm, 'l) AwsBackend \<Rightarrow> string \<Rightarrow> string option \<Rightarrow> 'jh" where
  "list_job_heads base_jobs_list_job_heads self repo_id run_name =
     base_jobs_list_job_heads (storage self) repo_id run_name"

text \<open>
  \<^verbatim>\<open>list_run_heads\<close>: the two last parameters have defaults; an argument the caller
  leaves out is \<open>None\<close>.
\<close>

definition list_run_heads ::
  "('s \<Rightarrow> string \<Rightarrow> string option \<Rightarrow> 'jh) \<Rightarrow> ('s \<Rightarrow> 'c \<Rightarrow> 'jh \<Rightarrow> bool \<Rightarrow> JobStatus \<Rightarrow> 'rh)
     \<Rightarrow> ('s, 'c, 'm, 'l) AwsBackend \<Rightarrow> string \<Rightarrow> string option
     \<Rightarrow> bool option \<Rightarrow> JobStatus option \<Rightarrow> 'rh" where
  "list_run_heads base_jobs_list_job_heads base_runs_get_run_heads self repo_id run_name
       include_request_heads interrupted_job_new_status =
     (let include_request_heads =
            (case include_request_heads of None \<Rightarrow> True | Some b \<Rightarrow> b);
          interrupted_job_new_status =
            (case interrupted_job_new_status of None \<Rightarrow> FAILED | Some st \<Rightarrow> st);
          job_heads = list_job_heads base_jobs_list_job_heads self repo_id run_name
      in base_runs_get_run_heads (storage self) (compute self) job_heads
           include_request_heads interrupted_job_new_status)"

text \<open>\<^verbatim>\<open>poll_logs\<close>: defaults \<^verbatim>\<open>end_time=None\<close>, \<^verbatim>\<open>descending=False\<close>, \<^verbatim>\<open>diagnose=False\<close>.\<close>

definition poll_logs ::
  "('s \<Rightarrow> 'l \<Rightarrow> string \<Rightarrow> string \<Rightarrow> string \<Rightarrow> int \<Rightarrow> int option \<Rightarrow> bool \<Rightarrow> bool \<Rightarrow> 'ev)
     \<Rightarrow> ('s, 'c, 'm, 'l) AwsBackend \<Rightarrow> string \<Rightarrow> string \<Rightarrow> int
     \<Rightarrow> int option \<Rightarrow> bool option \<Rightarrow> bool option \<Rightarrow> 'ev" where
  "poll_logs logs_poll_logs self repo_id run_name start_time end_time descending diagnose =
     logs_poll_logs (storage self) (logs_client self) (bucket_name self) repo_id run_name
       start_time end_time
       (case descending of None \<Rightarrow> False | Some b \<Rightarrow> b)
       (case diagnose of None \<Rightarrow> False | Some b \<Rightarrow> b)"

text \<open>\<^verbatim>\<open>list_run_artifact_files\<close>: default \<^verbatim>\<open>recursive=False\<close>.\<close>

definition list_run_artifact_files ::
  "('s \<Rightarrow> string \<Rightarrow> string \<Rightarrow> string \<Rightarrow> bool \<Rightarrow> 'af)
     \<Rightarrow> ('s, 'c, 'm, 'l) AwsBackend \<Rightarrow> string \<Rightarrow> string \<Rightarrow> string \<Rightarrow> bool option \<Rightarrow> 'af" where
  "list_run_artifact_files base_artifacts_list_run_artifact_files self repo_id run_name
       prefix' recursive =
     base_artifacts_list_run_artifact_files (storage self) repo_id run_name prefix'
       (case recursive of None \<Rightarrow> False | Some b \<Rightarrow> b)"

definition download_run_artifact_files ::
  "('s \<Rightarrow> string \<Rightarrow> string \<Rightarrow> string \<Rightarrow> bool \<Rightarrow> 'af)
     \<Rightarrow> ('s \<Rightarrow> string \<Rightarrow> 'af \<Rightarrow> string option \<Rightarrow> string option \<Rightarrow> 'o)
     \<Rightarrow> ('s, 'c, 'm, 'l) AwsBackend \<Rightarrow> string \<Rightarrow> string \<Rightarrow> string option \<Rightarrow> string option
     \<Rightarrow> 'o" where
  "download_run_artifact_files base_artifacts_list_run_artifact_files
       base_artifacts_download_run_artifact_files self repo_id run_name output_dir files_path =
     (let artifacts = list_run_artifact_files base_artifacts_list_run_artifact_files
                        self repo_id run_name [] (Some True)
      in base_artifacts_download_run_artifact_files (storage self) repo_id artifacts
           output_dir files_path)"

definition list_secret_names ::
  "('s \<Rightarrow> string \<Rightarrow> string list) \<Rightarrow> ('s, 'c, 'm, 'l) AwsBackend \<Rightarrow> string \<Rightarrow> string list" where
  "list_secret_names base_secrets_list_secret_names self repo_id =
     base_secrets_list_secret_names (storage self) repo_id"

definition get_secret ::
  "('m \<Rightarrow> string \<Rightarrow> string \<Rightarrow> Secret option)
     \<Rightarrow> ('s, 'c, 'm, 'l) AwsBackend \<Rightarrow> string \<Rightarrow> string \<Rightarrow> Secret option" where
  "get_secret base_secrets_get_secret self repo_id secret_name' =
     base_secrets_get_secret (secrets_manager self) repo_id repo_id"

text \<open>A method that writes returns the backend with the components it has changed.\<close>

definition with_components ::
  "('s, 'c, 'm, 'l) AwsBackend \<Rightarrow> backend_error + 's \<times> 'm
     \<Rightarrow> backend_error + ('s, 'c, 'm, 'l) AwsBackend" where
  "with_components self r =
     (case r of
        Inl e \<Rightarrow> Inl e
      | Inr (st, sm) \<Rightarrow> Inr (self\<lparr> storage := st, secrets_manager := sm \<rparr>))"

definition add_secret ::
  "('s \<Rightarrow> 'm \<Rightarrow> string \<Rightarrow> Secret \<Rightarrow> backend_error + 's \<times> 'm)
     \<Rightarrow> ('s, 'c, 'm, 'l) AwsBackend \<Rightarrow> string \<Rightarrow> Secret
     \<Rightarrow> backend_error + ('s, 'c, 'm, 'l) AwsBackend" where
  "add_secret base_secrets_add_secret self repo_id secret =
     with_components self
       (base_secrets_add_secret (storage self) (secrets_manager self) repo_id secret)"

definition update_secret ::
  "('s \<Rightarrow> 'm \<Rightarrow> string \<Rightarrow> Secret \<Rightarrow> backend_error + 's \<times> 'm)
     \<Rightarrow> ('s, 'c, 'm, 'l) AwsBackend \<Rightarrow> string \<Rightarrow> Secret
     \<Rightarrow> backend_error + ('s, 'c, 'm, 'l) AwsBackend" where
  "update_secret base_secrets_update_secret self repo_id secret =
     with_components self
       (base_secrets_update_secret (storage self) (secrets_manager self) repo_id secret)"

definition delete_secret ::
  "('s \<Rightarrow> 'm \<Rightarrow> string \<Rightarrow> string \<Rightarrow> backend_error + 's \<times> 'm)
     \<Rightarrow> ('s, 'c, 'm, 'l) AwsBackend \<Rightarrow> string \<Rightarrow> string
     \<Rightarrow> backend_error + ('s, 'c, 'm, 'l) AwsBackend" where
  "delete_secret base_secrets_delete_secret self repo_id secret_name' =
     with_components self
       (base_secrets_delete_secret (storage self) (secrets_manager self) repo_id repo_id)"

section \<open>The base modules, from the specification\<close>

subsection \<open>Secrets\<close>

text \<open>
  Modelled from the spec: the object store as far as the secrets use it, which is the
  index of secret names (the keys \<^verbatim>\<open>secrets-index/<repo_id>/<secret_name>\<close>, kept as
  pairs), and the provider vault, keyed by the pair of repository and secret name. The
  classes \<^verbatim>\<open>AWSStorage\<close> and \<^verbatim>\<open>AWSSecretsManager\<close> are missing.
\<close>

type_synonym secrets_index = "(string \<times> string) list"

type_synonym vault = "string \<times> string \<rightharpoonup> string"

text \<open>
  Modelled from the spec: \<^verbatim>\<open>base_secrets.add_secret\<close>, missing from the sources. A name
  that is in the index already is an \<^verbatim>\<open>AlreadyExists\<close> error; otherwise the value is
  written to the vault, then the name to the index.
\<close>

definition base_secrets_add_secret ::
  "secrets_index \<Rightarrow> vault \<Rightarrow> string \<Rightarrow> Secret \<Rightarrow> backend_error + secrets_index \<times> vault" where
  "base_secrets_add_secret index vlt repo_id secret =
     (if (repo_id, secret_name secret) \<in> set index then Inl AlreadyExists
      else let vlt' = vlt((repo_id, secret_name secret) \<mapsto> secret_value secret);
               index' = index @ [(repo_id, secret_name secret)]
           in Inr (index', vlt'))"

text \<open>
  Modelled from the spec: \<^verbatim>\<open>base_secrets.get_secret\<close>, missing from the sources. The
  value is read from the vault; \<^verbatim>\<open>NotFound\<close> is the result \<open>None\<close>.
\<close>

definition base_secrets_get_secret :: "vault \<Rightarrow> string \<Rightarrow> string \<Rightarrow> Secret option" where
  "base_secrets_get_secret vlt repo_id name =
     (case vlt (repo_id, name) of
        None \<Rightarrow> None
      | Some v \<Rightarrow> Some \<lparr> secret_name = name, secret_value = v \<rparr>)"

text \<open>
  Modelled from the spec: \<^verbatim>\<open>base_secrets.delete_secret\<close>, missing from the sources. The
  vault entry is removed, then the index entry.
\<close>

definition base_secrets_delete_secret ::
  "secrets_index \<Rightarrow> vault \<Rightarrow> string \<Rightarrow> string \<Rightarrow> backend_error + secrets_index \<times> vault" where
  "base_secrets_delete_secret index vlt repo_id name =
     (let vlt' = vlt((repo_id, name) := None);
          index' = filter (\<lambda>k. k \<noteq> (repo_id, name)) index
      in Inr (index', vlt'))"

text \<open>
  Modelled from the spec: \<^verbatim>\<open>base_secrets.list_secret_names\<close>, missing from the sources.
  The names in the index of the repository, in the order of their keys.
\<close>

definition base_secrets_list_secret_names :: "secrets_index \<Rightarrow> string \<Rightarrow> string list" where
  "base_secrets_list_secret_names index repo_id =
     sort (map snd (filter (\<lambda>k. fst k = repo_id) index))"

subsection \<open>Run heads\<close>

text \<open>
  Modelled from the spec: a job is terminal once its status is one of \<^verbatim>\<open>STOPPED\<close>,
  \<^verbatim>\<open>ABORTED\<close>, \<^verbatim>\<open>FAILED\<close>, \<^verbatim>\<open>DONE\<close> (\<^verbatim>\<open>core.job\<close> is missing).
\<close>

fun is_terminal :: "JobStatus \<Rightarrow> bool" where
  "is_terminal STOPPED = True"
| "is_terminal ABORTED = True"
| "is_terminal FAILED = True"
| "is_terminal DONE = True"
| "is_terminal _ = False"

text \<open>
  Modelled from the spec: the precedence of \<^verbatim>\<open>base_runs.get_run_heads\<close>, missing from
  the sources. \<^verbatim>\<open>RUNNING\<close> dominates; else a non-terminal status dominates a terminal
  one; else \<^verbatim>\<open>FAILED\<close> and \<^verbatim>\<open>ABORTED\<close> dominate \<^verbatim>\<open>DONE\<close> and \<^verbatim>\<open>STOPPED\<close>. These are
  four ranks.
\<close>

fun precedence :: "JobStatus \<Rightarrow> nat" where
  "precedence RUNNING = 3"
| "precedence FAILED = 1"
| "precedence ABORTED = 1"
| "precedence DONE = 0"
| "precedence STOPPED = 0"
| "precedence _ = 2"

text \<open>
  Modelled from the spec: the aggregation of the member statuses of a run. The status
  of the run is that of the first member, in the order of the job heads, that no
  other member dominates; the specification leaves the choice inside one rank open.
\<close>

fun dominant :: "JobStatus \<Rightarrow> JobStatus list \<Rightarrow> JobStatus" where
  "dominant s [] = s"
| "dominant s (x # xs) = dominant (if precedence s < precedence x then x else s) xs"

text \<open>
  Modelled from the spec: the compute component as the reconciler asks it, whether the
  resource behind a job is still alive (\<^verbatim>\<open>AWSCompute\<close> is missing). A job is interrupted
  when the cross-check is asked for, its stored status is not terminal and its
  resource is gone; its effective status is then the new status given.
\<close>

type_synonym compute = "string \<Rightarrow> bool"

definition interrupted :: "compute \<Rightarrow> bool \<Rightarrow> JobHead \<Rightarrow> bool" where
  "interrupted is_alive include_request_heads jh =
     (include_request_heads \<and> \<not> is_terminal (jh_status jh) \<and> \<not> is_alive (jh_job_id jh))"

definition effective_status :: "compute \<Rightarrow> bool \<Rightarrow> JobStatus \<Rightarrow> JobHead \<Rightarrow> JobStatus" where
  "effective_status is_alive include_request_heads interrupted_job_new_status jh =
     (if interrupted is_alive include_request_heads jh then interrupted_job_new_status
      else jh_status jh)"

text \<open>
  Modelled from the spec: the run head of the job heads of one run (none for no job
  head). The specification does not say which submission time a run has; it is the
  earliest of its jobs here.
\<close>

fun run_head_of :: "compute \<Rightarrow> bool \<Rightarrow> JobStatus \<Rightarrow> JobHead list \<Rightarrow> RunHead option" where
  "run_head_of is_alive include_request_heads new_status [] = None"
| "run_head_of is_alive include_request_heads new_status (jh # jhs) =
     Some \<lparr> rh_run_name = jh_run_name jh,
            rh_status = dominant (effective_status is_alive include_request_heads new_status jh)
                          (map (effective_status is_alive include_request_heads new_status) jhs),
            rh_submitted_at = fold min (map jh_submitted_at jhs) (jh_submitted_at jh),
            rh_interrupted = list_ex (interrupted is_alive include_request_heads) (jh # jhs) \<rparr>"

text \<open>
  Modelled from the spec: \<^verbatim>\<open>base_runs.get_run_heads\<close>, missing from the sources. The job
  heads are grouped by run name, each group gives one run head, and the run heads are
  sorted by submission time, the most recent first. The storage is not read.
\<close>

definition base_runs_get_run_heads ::
  "'s \<Rightarrow> compute \<Rightarrow> JobHead list \<Rightarrow> bool \<Rightarrow> JobStatus \<Rightarrow> RunHead list" where
  "base_runs_get_run_heads st is_alive job_heads include_request_heads interrupted_job_new_status =
     sort_key (\<lambda>rh. - rh_submitted_at rh)
       (List.map_filter
          (\<lambda>name. run_head_of is_alive include_request_heads interrupted_job_new_status
                    (filter (\<lambda>jh. jh_run_name jh = name) job_heads))
          (remdups (map jh_run_name job_heads)))"

subsection \<open>Logs\<close>

text \<open>
  Modelled from the spec: the log sink of the provider (the \<^verbatim>\<open>logs\<close> client is
  missing). For the log group of a run it holds the pages of the events of the user
  process and the pages of the diagnostic events of the backend; a query follows the
  continuation tokens from the first page to the last. The group of a run is given by
  bucket, repository and run name. \<open>None\<close> is a sink that is not available.
\<close>

type_synonym log_group = "string \<times> string \<times> string"

type_synonym log_sink = "log_group \<Rightarrow> (LogEvent list list \<times> LogEvent list list) option"

text \<open>
  Modelled from the spec: the durable fallback store of the log reader, kept in the
  object store (\<^verbatim>\<open>AWSStorage\<close> is missing).
\<close>

type_synonym log_fallback = "log_group \<Rightarrow> LogEvent list"

definition in_time_range :: "int \<Rightarrow> int option \<Rightarrow> LogEvent \<Rightarrow> bool" where
  "in_time_range start_time end_time ev =
     (start_time \<le> timestamp ev \<and> (case end_time of None \<Rightarrow> True | Some e \<Rightarrow> timestamp ev < e))"

text \<open>
  Modelled from the spec: \<^verbatim>\<open>logs.poll_logs\<close>, missing from the sources. All pages of the
  sink are read (the fallback store when the sink is not available), with the
  diagnostic events when \<open>diagnose\<close> is set; the events from \<open>start_time\<close> on and
  before \<open>end_time\<close>, if one is given, are kept and put in the order of their
  timestamps, ascending unless \<open>descending\<close> is set.
\<close>

definition logs_poll_logs ::
  "log_fallback \<Rightarrow> log_sink \<Rightarrow> string \<Rightarrow> string \<Rightarrow> string \<Rightarrow> int \<Rightarrow> int option \<Rightarrow> bool \<Rightarrow> bool
     \<Rightarrow> LogEvent list" where
  "logs_poll_logs fallback sink bucket repo_id run_name start_time end_time descending diagnose =
     (let group = (bucket, repo_id, run_name);
          events = (case sink group of
                      None \<Rightarrow> fallback group
                    | Some (user_pages, diagnostic_pages) \<Rightarrow>
                        concat user_pages @ (if diagnose then concat diagnostic_pages else []));
          ordered = sort_key timestamp (filter (in_time_range start_time end_time) events)
      in if descending then rev ordered else ordered)"

section \<open>providers/notebook/main.py\<close>














section \<open>Example inputs\<close>

text \<open>
  Backends over the secrets of the specification: the storage is the index of secret
  names, the secrets manager is the vault. The first holds no secret, the second the
  secrets \<^verbatim>\<open>token\<close> and \<^verbatim>\<open>repo\<close> of the repository \<^verbatim>\<open>repo\<close>.
\<close>

definition empty_backend :: "(secrets_index, unit, vault, unit) AwsBackend" where
  "empty_backend =
     \<lparr> storage = [], compute = (), secrets_manager = Map.empty, logs_client = (),
       bucket_name = ''bucket'' \<rparr>"

definition token_secret :: Secret where
  "token_secret = \<lparr> secret_name = ''token'', secret_value = ''abc'' \<rparr>"

definition two_secrets_backend :: "(secrets_index, unit, vault, unit) AwsBackend" where
  "two_secrets_backend =
     \<lparr> storage = [(''repo'', ''token''), (''repo'', ''repo'')], compute = (),
       secrets_manager = [(''repo'', ''token'') \<mapsto> ''abc'', (''repo'', ''repo'') \<mapsto> ''xyz''],
       logs_client = (), bucket_name = ''bucket'' \<rparr>"

text \<open>
  A job store that returns the job heads it holds, a compute component that finds
  every resource alive, backends over them, and a listing of five job heads of three
  runs.
\<close>

definition stored_job_heads :: "JobHead list \<Rightarrow> string \<Rightarrow> string option \<Rightarrow> JobHead list" where
  "stored_job_heads st repo_id run_name = st"

definition always_alive :: compute where
  "always_alive job = True"

definition job_head :: "string \<Rightarrow> string \<Rightarrow> JobStatus \<Rightarrow> int \<Rightarrow> JobHead" where
  "job_head run job st t =
     \<lparr> jh_job_id = job, jh_run_name = run, jh_status = st, jh_submitted_at = t \<rparr>"

definition three_runs :: "JobHead list" where
  "three_runs =
     [job_head ''a'' ''j1'' DONE 1, job_head ''b'' ''j2'' FAILED 2,
      job_head ''a'' ''j3'' RUNNING 3, job_head ''c'' ''j4'' DONE 4,
      job_head ''b'' ''j5'' DONE 5]"

definition jobs_backend :: "JobHead list \<Rightarrow> (JobHead list, compute, unit, unit) AwsBackend" where
  "jobs_backend jhs =
     \<lparr> storage = jhs, compute = always_alive, secrets_manager = (), logs_client = (),
       bucket_name = ''bucket'' \<rparr>"

text \<open>
  A log sink holding, for one run, three events of the user process on two pages and one
  diagnostic event, with an empty fallback store.
\<close>

definition log_event :: "int \<Rightarrow> LogEvent" where
  "log_event t = \<lparr> timestamp = t, stream_id = ''stdout'', log_message = ''line'' \<rparr>"

definition example_sink :: log_sink where
  "example_sink g =
     (if g = (''bucket'', ''repo'', ''run'')
      then Some ([[log_event 2], [log_event 3, log_event 1]], [[log_event 0]])
      else None)"

definition no_fallback :: log_fallback where
  "no_fallback g = []"

definition logs_backend :: "(log_fallback, unit, unit, log_sink) AwsBackend" where
  "logs_backend =
     \<lparr> storage = no_fallback, compute = (), secrets_manager = (), logs_client = example_sink,
       bucket_name = ''bucket'' \<rparr>"




text \<open>
  A Google Cloud with default credentials for the project \<^verbatim>\<open>proj\<close>, one region, one
  bucket and the default network, in which creating a service account fails with the
  status code given and every other call succeeds; a configurator authorised for it
  and a project form with default credentials.
\<close>

definition example_gcp :: "nat \<Rightarrow> unit gcp_cloud" where
  "example_gcp status_code =
     \<lparr> auth_default = Inr ((), ''proj''),
       from_service_account_info = (\<lambda>d. Inl (OtherSdkError ''no key'')),
       storage_list_buckets = (\<lambda>c. Inr [(''bucket'', ''US-WEST1'')]),
       regions_list = (\<lambda>c p. Inr [\<lparr> region_name' = ''us-west1'',
                                      region_zones = [''zones/us-west1-b''] \<rparr>]),
       networks_list = (\<lambda>c p. Inr [\<lparr> network_name = ''default'',
                                       subnetworks = [''default''] \<rparr>]),
       iam_create_service_account = (\<lambda>c p n. Inl (HttpError status_code)),
       get_iam_policy = (\<lambda>c p. Inr (Some [])),
       set_iam_policy = (\<lambda>c p q. Inr ()),
       create_service_account_key = (\<lambda>c p e. Inr ()),
       get_resource_name = drop 6,
       get_subnet_region = (\<lambda>s. ''us-west1''),
       get_subnet_name = (\<lambda>s. s),
       get_service_account_email = (\<lambda>p n. n @ ''@'' @ p @ ''.iam.gserviceaccount.com'') \<rparr>"

definition example_gcp_self :: "unit GCPConfigurator" where
  "example_gcp_self = \<lparr> self_credentials = (), self_project_id = ''proj'' \<rparr>"

definition example_gcp_project :: GCPProjectConfigWithCreds where
  "example_gcp_project =
     \<lparr> pc_area = ''North America'', pc_region = ''us-west1'', pc_zone = ''us-west1-b'',
       pc_bucket_name = ''bucket'', pc_vpc = ''default'', pc_subnet = ''default'',
       pc_credentials = GCPProjectDefaultCreds \<rparr>"

text \<open>
  An AWS account whose default credentials are valid and which holds no bucket, with
  the configuration data of three projects: an unknown AWS region; a bucket that does
  not exist; a GCP service account key that cannot be read.
\<close>

definition example_aws :: aws_cloud where
  "example_aws =
     \<lparr> profile_region = Some ''us-east-1'',
       get_caller_identity = (\<lambda>session. None),
       head_bucket = (\<lambda>session b. Inl (ClientError (Some ''404''))),
       list_buckets = (\<lambda>session. Inr []),
       describe_subnets = (\<lambda>session. Inr []) \<rparr>"

definition aws_config_invalid_region :: aws_config_data where
  "aws_config_invalid_region =
     \<lparr> cd_region_name = Some ''mars-1'', cd_bucket_name = None, cd_subnet_id = None,
       cd_credentials = None \<rparr>"

definition aws_config_missing_bucket :: aws_config_data where
  "aws_config_missing_bucket =
     \<lparr> cd_region_name = Some ''us-east-1'', cd_bucket_name = Some ''nobucket'',
       cd_subnet_id = None, cd_credentials = Some [''type'' \<mapsto> ''default''] \<rparr>"

definition gcp_config_bad_key :: gcp_config_data where
  "gcp_config_bad_key =
     \<lparr> gcd_credentials = Some [''type'' \<mapsto> ''service_account'', ''data'' \<mapsto> ''{}''],
       gcd_area = None, gcd_region = None, gcd_zone = None, gcd_bucket_name = None,
       gcd_vpc = None, gcd_subnet = None \<rparr>"

section \<open>Properties\<close>

lemma str_replace_no_occurrence:
  "old \<noteq> [] \<Longrightarrow> \<not> sublist old s \<Longrightarrow> str_replace old new s = s"
proof (induction s)
  case Nil
  then show ?case by (subst str_replace.simps) simp
next
  case (Cons c s)
  from Cons.prems have np: "\<not> prefix old (c # s)" and ns: "\<not> sublist old s"
    by (auto simp: sublist_Cons_right)
  from Cons.IH [OF Cons.prems(1) ns] np Cons.prems(1) show ?case
    by (subst str_replace.simps) simp
qed

subsection \<open>The bucket name stored by the AWS configurator\<close>

text \<open>
  C9, as stated: the bucket name of the returned configuration holds no occurrence of
  \<^verbatim>\<open>s3://\<close>. It fails: \<^verbatim>\<open>replace\<close> makes one pass, and removing an occurrence can
  put a new one together, as in \<^verbatim>\<open>s3:s3:////bucket\<close>, which becomes
  \<^verbatim>\<open>s3://bucket\<close>.
\<close>

theorem C9_bucket_name_counterexample:
  "str_contains ''s3://''
     (s3_bucket_name (fst (aws_create_config_auth_data_from_project_config
        \<lparr> region_name = ''us-east-1'', region_name_title = ''us-east-1'',
          s3_bucket_name = ''s3:s3:////bucket'', ec2_subnet_id = None,
          credentials = AWSProjectDefaultCreds \<rparr>)))"
  by code_simp

text \<open>
  C9, amended: when the bucket name given is a name \<open>b\<close> that holds no occurrence of
  \<^verbatim>\<open>s3://\<close>, alone or behind one \<^verbatim>\<open>s3://\<close> prefix, the bucket name of the returned
  configuration is \<open>b\<close>, and so holds no occurrence of \<^verbatim>\<open>s3://\<close>.
\<close>

theorem C9_bucket_name_prefix_stripped:
  assumes "\<not> str_contains ''s3://'' b"
    and "s3_bucket_name pc = ''s3://'' @ b \<or> s3_bucket_name pc = b"
  shows "s3_bucket_name (fst (aws_create_config_auth_data_from_project_config pc)) = b
       \<and> \<not> str_contains ''s3://''
             (s3_bucket_name (fst (aws_create_config_auth_data_from_project_config pc)))"
proof -
  have nb: "\<not> sublist ''s3://'' b"
    using assms(1) by (simp add: str_contains_def)
  have r0: "str_replace ''s3://'' [] b = b"
    by (rule str_replace_no_occurrence) (use nb in simp_all)
  have r1: "str_replace ''s3://'' [] (''s3://'' @ b) = b"
    by (subst str_replace.simps) (simp add: r0)
  have "str_replace ''s3://'' [] (s3_bucket_name pc) = b"
    using assms(2) r0 r1 by auto
  then show ?thesis
    using assms(1)
    by (simp add: aws_create_config_auth_data_from_project_config_def
        AWSProjectConfig.truncate_def)
qed

theorem C9_bucket_name_prefix_stripped_witness:
  "\<not> str_contains ''s3://'' ''bucket''
   \<and> s3_bucket_name (fst (aws_create_config_auth_data_from_project_config
        \<lparr> region_name = ''us-east-1'', region_name_title = ''us-east-1'',
          s3_bucket_name = ''s3://bucket'', ec2_subnet_id = None,
          credentials = AWSProjectDefaultCreds \<rparr>)) = ''bucket''"
  using C9_bucket_name_prefix_stripped [of "''bucket''"
      "\<lparr> region_name = ''us-east-1'', region_name_title = ''us-east-1'',
         s3_bucket_name = ''s3://bucket'', ec2_subnet_id = None,
         credentials = AWSProjectDefaultCreds \<rparr>"]
  by (simp add: str_contains_def sublist_code)

subsection \<open>The facade of the AWS backend\<close>

text \<open>
  C1: after \<^verbatim>\<open>add_secret(repo_id, secret)\<close>, \<^verbatim>\<open>get_secret(repo_id, secret.secret_name)\<close>
  returns the secret. The facade does not do this: on a backend without secrets, after
  adding the secret \<^verbatim>\<open>token\<close> to the repository \<^verbatim>\<open>repo\<close>, \<^verbatim>\<open>get_secret\<close> of the facade
  returns \<open>None\<close> for it, while the function of the base module, asked for the name,
  returns the secret.
\<close>

theorem C1_get_secret_after_add_secret:
  "map_sum id
     (\<lambda>b. (get_secret base_secrets_get_secret b ''repo'' ''token'',
           base_secrets_get_secret (secrets_manager b) ''repo'' ''token''))
     (add_secret base_secrets_add_secret empty_backend ''repo'' token_secret)
   = Inr (None, Some token_secret)"
  by (simp add: add_secret_def get_secret_def with_components_def base_secrets_add_secret_def
      base_secrets_get_secret_def empty_backend_def token_secret_def)

text \<open>
  C2: every method of the facade forwards each argument, unchanged and in its place,
  to the function of the base module. \<^verbatim>\<open>get_secret\<close> and \<^verbatim>\<open>delete_secret\<close> do not: they
  pass the repository id where the secret name belongs. On a backend holding the
  secrets \<^verbatim>\<open>token\<close> and \<^verbatim>\<open>repo\<close> of the repository \<^verbatim>\<open>repo\<close>, asking the facade for
  \<^verbatim>\<open>token\<close> gives the secret \<^verbatim>\<open>repo\<close>, and deleting \<^verbatim>\<open>token\<close> through the facade leaves
  \<^verbatim>\<open>token\<close> as the only name listed.
\<close>

theorem C2_secret_name_not_forwarded:
  "get_secret base_secrets_get_secret two_secrets_backend ''repo'' ''token''
     = Some \<lparr> secret_name = ''repo'', secret_value = ''xyz'' \<rparr>
   \<and> base_secrets_get_secret (secrets_manager two_secrets_backend) ''repo'' ''token''
     = Some \<lparr> secret_name = ''token'', secret_value = ''abc'' \<rparr>
   \<and> map_sum id (\<lambda>b. list_secret_names base_secrets_list_secret_names b ''repo'')
        (delete_secret base_secrets_delete_secret two_secrets_backend ''repo'' ''token'')
     = Inr [''token'']"
  by (simp add: get_secret_def delete_secret_def list_secret_names_def with_components_def
      base_secrets_get_secret_def base_secrets_delete_secret_def
      base_secrets_list_secret_names_def two_secrets_backend_def)

text \<open>
  C3: \<^verbatim>\<open>list_run_heads\<close> called without its optional arguments reconciles with
  \<^verbatim>\<open>include_request_heads = True\<close> and the new status \<^verbatim>\<open>FAILED\<close> for interrupted jobs,
  and gives the reconciler the job heads that \<^verbatim>\<open>list_job_heads\<close> returns for the
  repository and the run name, whatever the two functions of the base modules are.
\<close>

theorem C3_list_run_heads_defaults:
  "list_run_heads base_jobs_list_job_heads base_runs_get_run_heads' self repo_id run_name
     None None
   = base_runs_get_run_heads' (storage self) (compute self)
       (base_jobs_list_job_heads (storage self) repo_id run_name) True FAILED"
  by (simp add: list_run_heads_def list_job_heads_def)

text \<open>
  C7: \<^verbatim>\<open>download_run_artifact_files\<close> lists the artifact files of the run with the
  empty prefix and \<^verbatim>\<open>recursive=True\<close>, then downloads this list to \<open>output_dir\<close> with
  the \<open>files_path\<close> of the caller; \<open>files_path\<close> goes to the download only, not to
  the listing.
\<close>

theorem C7_download_lists_all_then_downloads:
  "download_run_artifact_files base_artifacts_list_run_artifact_files
     base_artifacts_download_run_artifact_files self repo_id run_name output_dir files_path
   = base_artifacts_download_run_artifact_files (storage self) repo_id
       (base_artifacts_list_run_artifact_files (storage self) repo_id run_name [] True)
       output_dir files_path"
  by (simp add: download_run_artifact_files_def list_run_artifact_files_def)

subsection \<open>The status of a run\<close>

lemma dominant_mem: "dominant s xs \<in> set (s # xs)"
  by (induction xs arbitrary: s) (auto split: if_splits)

lemma dominant_ge_start: "precedence s \<le> precedence (dominant s xs)"
proof (induction xs arbitrary: s)
  case Nil
  show ?case by simp
next
  case (Cons x xs)
  show ?case
    using Cons.IH [of x] Cons.IH [of s] by (simp split: if_splits)
qed

lemma dominant_max: "x \<in> set (s # xs) \<Longrightarrow> precedence x \<le> precedence (dominant s xs)"
proof (induction xs arbitrary: s)
  case Nil
  then show ?case by simp
next
  case (Cons y ys)
  let ?s' = "if precedence s < precedence y then y else s"
  have step: "dominant s (y # ys) = dominant ?s' ys" by simp
  from Cons.prems consider "x = s" | "x = y" | "x \<in> set ys" by auto
  then show ?case
  proof cases
    case 1
    have "precedence s \<le> precedence ?s'" by simp
    also have "\<dots> \<le> precedence (dominant ?s' ys)" by (rule dominant_ge_start)
    finally show ?thesis using 1 step by simp
  next
    case 2
    have "precedence y \<le> precedence ?s'" by simp
    also have "\<dots> \<le> precedence (dominant ?s' ys)" by (rule dominant_ge_start)
    finally show ?thesis using 2 step by simp
  next
    case 3
    then have "x \<in> set (?s' # ys)" by simp
    from Cons.IH [OF this] show ?thesis using step by simp
  qed
qed

lemma filter_eq_distinct:
  "distinct xs \<Longrightarrow> x \<in> set xs \<Longrightarrow> filter (\<lambda>y. y = x) xs = [x]"
  by (induction xs) (auto simp: filter_empty_conv)

lemma run_head_of_Some:
  assumes "jhs \<noteq> []"
  shows "run_head_of a i n jhs
         = Some \<lparr> rh_run_name = jh_run_name (hd jhs),
                  rh_status = dominant (effective_status a i n (hd jhs))
                                (map (effective_status a i n) (tl jhs)),
                  rh_submitted_at = fold min (map jh_submitted_at (tl jhs))
                                      (jh_submitted_at (hd jhs)),
                  rh_interrupted = list_ex (interrupted a i) jhs \<rparr>"
  using assms by (cases jhs) simp_all

lemma run_heads_of_name:
  assumes name: "name \<in> jh_run_name ` set jhs"
  shows "filter (\<lambda>rh. rh_run_name rh = name) (base_runs_get_run_heads st a jhs i n)
         = [the (run_head_of a i n (filter (\<lambda>jh. jh_run_name jh = name) jhs))]"
proof -
  let ?g = "\<lambda>nm. run_head_of a i n (filter (\<lambda>jh. jh_run_name jh = nm) jhs)"
  let ?ns = "remdups (map jh_run_name jhs)"
  have some: "?g nm \<noteq> None \<and> rh_run_name (the (?g nm)) = nm" if "nm \<in> set ?ns" for nm
  proof -
    from that obtain jh where "jh \<in> set jhs" "jh_run_name jh = nm" by auto
    then have ne: "filter (\<lambda>jh. jh_run_name jh = nm) jhs \<noteq> []"
      by (auto simp: filter_empty_conv)
    then have "hd (filter (\<lambda>jh. jh_run_name jh = nm) jhs)
                 \<in> set (filter (\<lambda>jh. jh_run_name jh = nm) jhs)"
      by (rule hd_in_set)
    then have "jh_run_name (hd (filter (\<lambda>jh. jh_run_name jh = nm) jhs)) = nm"
      by simp
    then show ?thesis
      by (simp add: run_head_of_Some [OF ne])
  qed
  have mf: "List.map_filter ?g ?ns = map (the \<circ> ?g) ?ns"
    unfolding List.map_filter_def using some by (simp cong: filter_cong)
  have "filter (\<lambda>nm. rh_run_name (the (?g nm)) = name) ?ns = filter (\<lambda>nm. nm = name) ?ns"
    by (rule filter_cong) (use some in auto)
  then have "filter (\<lambda>rh. rh_run_name rh = name) (map (the \<circ> ?g) ?ns)
        = map (the \<circ> ?g) (filter (\<lambda>nm. nm = name) ?ns)"
    by (simp add: filter_map comp_def)
  also have "filter (\<lambda>nm. nm = name) ?ns = [name]"
    using name by (intro filter_eq_distinct) auto
  finally have "filter (\<lambda>rh. rh_run_name rh = name) (map (the \<circ> ?g) ?ns) = [the (?g name)]"
    by (simp add: comp_def)
  then show ?thesis
    unfolding base_runs_get_run_heads_def mf filter_sort by (simp add: comp_def)
qed

lemma precedence_RUNNING: "3 \<le> precedence s \<longleftrightarrow> s = RUNNING"
  by (cases s) simp_all

lemma precedence_non_terminal: "2 \<le> precedence s \<longleftrightarrow> \<not> is_terminal s"
  by (cases s) simp_all

lemma precedence_failed: "1 \<le> precedence s \<longleftrightarrow> s \<notin> {DONE, STOPPED}"
  by (cases s) simp_all

text \<open>
  Interruption healing through the facade: a job stored as \<^verbatim>\<open>RUNNING\<close> whose resource
  is gone makes the run \<^verbatim>\<open>FAILED\<close> when \<^verbatim>\<open>list_run_heads\<close> is called without its
  optional arguments, and leaves it \<^verbatim>\<open>RUNNING\<close> when the cross-check is switched off.
\<close>

lemma list_run_heads_interrupted_job:
  "map rh_status (list_run_heads stored_job_heads base_runs_get_run_heads
      ((jobs_backend [job_head ''run'' ''j1'' DONE 1, job_head ''run'' ''j2'' RUNNING 2])
         \<lparr> compute := (\<lambda>job. job \<noteq> ''j2'') \<rparr>)
      ''repo'' (Some ''run'') None None) = [FAILED]
   \<and> map rh_status (list_run_heads stored_job_heads base_runs_get_run_heads
      ((jobs_backend [job_head ''run'' ''j1'' DONE 1, job_head ''run'' ''j2'' RUNNING 2])
         \<lparr> compute := (\<lambda>job. job \<noteq> ''j2'') \<rparr>)
      ''repo'' (Some ''run'') (Some False) None) = [RUNNING]"
  by (simp add: list_run_heads_def list_job_heads_def stored_job_heads_def jobs_backend_def
      job_head_def base_runs_get_run_heads_def List.map_filter_simps effective_status_def
      interrupted_def)

text \<open>
  C5: the status of a run follows a fixed precedence over the statuses of its jobs, as
  rewritten by the reconciler. Take any call of \<^verbatim>\<open>list_run_heads\<close>, the job heads it
  lists, of one run or of many, and any run that has a job head among them. The result
  holds exactly one run head of that run. With member statuses \<^verbatim>\<open>RUNNING\<close> and \<^verbatim>\<open>DONE\<close>
  the run reports \<^verbatim>\<open>RUNNING\<close>; with \<^verbatim>\<open>FAILED\<close> and \<^verbatim>\<open>DONE\<close> it reports \<^verbatim>\<open>FAILED\<close>; with
  \<^verbatim>\<open>DONE\<close> only it reports \<^verbatim>\<open>DONE\<close>. The precedence is total and deterministic: the
  status reported is the status of a member; it is \<^verbatim>\<open>RUNNING\<close> when a member is; it is
  not terminal when a member is not; and it is neither \<^verbatim>\<open>DONE\<close> nor \<^verbatim>\<open>STOPPED\<close> when a
  member is \<^verbatim>\<open>FAILED\<close> or \<^verbatim>\<open>ABORTED\<close>.
\<close>

theorem C5_run_status_precedence:
  assumes jhs: "jhs = base_jobs_list_job_heads (storage self) repo_id run_name"
    and name: "name \<in> jh_run_name ` set jhs"
    and sts: "sts = map (effective_status (compute self)
                          (case include_request_heads of None \<Rightarrow> True | Some b \<Rightarrow> b)
                          (case interrupted_job_new_status of None \<Rightarrow> FAILED | Some s \<Rightarrow> s))
                      (filter (\<lambda>jh. jh_run_name jh = name) jhs)"
    and run: "run_statuses = map rh_status
                (filter (\<lambda>rh. rh_run_name rh = name)
                   (list_run_heads base_jobs_list_job_heads base_runs_get_run_heads self repo_id
                      run_name include_request_heads interrupted_job_new_status))"
  shows "(set sts = {RUNNING, DONE} \<longrightarrow> run_statuses = [RUNNING])
       \<and> (set sts = {FAILED, DONE} \<longrightarrow> run_statuses = [FAILED])
       \<and> (set sts = {DONE} \<longrightarrow> run_statuses = [DONE])
       \<and> (\<exists>s \<in> set sts. run_statuses = [s]
            \<and> (RUNNING \<in> set sts \<longrightarrow> s = RUNNING)
            \<and> ((\<exists>x \<in> set sts. \<not> is_terminal x) \<longrightarrow> \<not> is_terminal s)
            \<and> (FAILED \<in> set sts \<or> ABORTED \<in> set sts \<longrightarrow> s \<notin> {DONE, STOPPED}))"
proof -
  let ?eff = "effective_status (compute self)
                (case include_request_heads of None \<Rightarrow> True | Some b \<Rightarrow> b)
                (case interrupted_job_new_status of None \<Rightarrow> FAILED | Some s \<Rightarrow> s)"
  let ?grp = "filter (\<lambda>jh. jh_run_name jh = name) jhs"
  define d where "d = dominant (?eff (hd ?grp)) (map ?eff (tl ?grp))"
  have ne: "?grp \<noteq> []"
    using name by (auto simp: filter_empty_conv)
  have split: "sts = ?eff (hd ?grp) # map ?eff (tl ?grp)"
    using ne unfolding sts by (cases ?grp) simp_all
  have r: "run_statuses = [d]"
    unfolding run d_def list_run_heads_def list_job_heads_def Let_def jhs [symmetric]
    by (simp add: run_heads_of_name [OF name] run_head_of_Some [OF ne])
  have mem: "d \<in> set sts"
    unfolding d_def split by (rule dominant_mem)
  have top: "precedence s' \<le> precedence d" if "s' \<in> set sts" for s'
    using that unfolding d_def split by (rule dominant_max)
  have running: "d = RUNNING" if "RUNNING \<in> set sts"
    using top [OF that] precedence_RUNNING [of d] by simp
  have non_terminal: "\<not> is_terminal d" if "x \<in> set sts" "\<not> is_terminal x" for x
    using top [OF that(1)] that(2) precedence_non_terminal [of d] precedence_non_terminal [of x]
    by simp
  have failed: "d \<notin> {DONE, STOPPED}" if "FAILED \<in> set sts \<or> ABORTED \<in> set sts"
  proof -
    from that obtain x where "x \<in> set sts" "1 \<le> precedence x" by auto
    with top [of x] have "1 \<le> precedence d" by simp
    then show ?thesis using precedence_failed [of d] by blast
  qed
  have c1: "d = RUNNING" if h: "set sts = {RUNNING, DONE}"
    by (rule running) (simp add: h)
  have c2: "d = FAILED" if h: "set sts = {FAILED, DONE}"
  proof -
    have "d = FAILED \<or> d = DONE"
      using mem unfolding h by simp
    moreover have "d \<notin> {DONE, STOPPED}"
      by (rule failed) (simp add: h)
    ultimately show ?thesis by auto
  qed
  have c3: "d = DONE" if h: "set sts = {DONE}"
    using mem unfolding h by simp
  have c4: "\<exists>s \<in> set sts. run_statuses = [s]
            \<and> (RUNNING \<in> set sts \<longrightarrow> s = RUNNING)
            \<and> ((\<exists>x \<in> set sts. \<not> is_terminal x) \<longrightarrow> \<not> is_terminal s)
            \<and> (FAILED \<in> set sts \<or> ABORTED \<in> set sts \<longrightarrow> s \<notin> {DONE, STOPPED})"
    using r mem running non_terminal failed by (intro bexI [of _ d]) blast+
  show ?thesis
    using r c1 c2 c3 c4 by simp
qed

theorem C5_run_status_precedence_witness:
  "map rh_status (filter (\<lambda>rh. rh_run_name rh = ''a'')
      (list_run_heads stored_job_heads base_runs_get_run_heads (jobs_backend three_runs)
         ''repo'' None None None)) = [RUNNING]
   \<and> map rh_status (filter (\<lambda>rh. rh_run_name rh = ''b'')
      (list_run_heads stored_job_heads base_runs_get_run_heads (jobs_backend three_runs)
         ''repo'' None None None)) = [FAILED]
   \<and> map rh_status (filter (\<lambda>rh. rh_run_name rh = ''c'')
      (list_run_heads stored_job_heads base_runs_get_run_heads (jobs_backend three_runs)
         ''repo'' None None None)) = [DONE]"
  using
    C5_run_status_precedence [of three_runs stored_job_heads "jobs_backend three_runs" "''repo''" None "''a''"
          "[DONE, RUNNING]" None None, OF _ _ _ refl]
    C5_run_status_precedence [of three_runs stored_job_heads "jobs_backend three_runs" "''repo''" None "''b''"
          "[FAILED, DONE]" None None, OF _ _ _ refl]
    C5_run_status_precedence [of three_runs stored_job_heads "jobs_backend three_runs" "''repo''" None "''c''"
          "[DONE]" None None, OF _ _ _ refl]
  by (simp add: stored_job_heads_def jobs_backend_def three_runs_def job_head_def
      effective_status_def interrupted_def always_alive_def insert_commute)

subsection \<open>The order of log events\<close>

lemma sort_key_three:
  assumes m: "mset xs = {#e1, e2, e3#}"
    and t: "timestamp e1 < timestamp e2" "timestamp e2 < timestamp e3"
  shows "sort_key timestamp (filter P xs) = filter P [e1, e2, e3]"
proof (rule sort_key_inj_key_eq)
  show "mset (filter P xs) = mset (filter P [e1, e2, e3])"
    using m by (simp add: mset_filter)
  have "set_mset (mset xs) = {e1, e2, e3}"
    by (simp add: m insert_commute)
  then have s: "set xs = {e1, e2, e3}"
    by simp
  have "inj_on timestamp {e1, e2, e3}"
    using t by (auto simp: inj_on_def)
  then show "inj_on timestamp (set (filter P xs))"
    using s by (auto intro: inj_on_subset)
  have "sorted (map timestamp [e1, e2, e3])"
    using t by simp
  then show "sorted (map timestamp (filter P [e1, e2, e3]))"
    by (rule sorted_filter)
qed

lemma poll_logs_three:
  assumes sink: "logs_client self (bucket_name self, repo_id, run_name)
                   = Some (user_pages, diagnostic_pages)"
    and m: "mset (concat user_pages) = {#e1, e2, e3#}"
    and t: "timestamp e1 < timestamp e2" "timestamp e2 < timestamp e3"
  shows "poll_logs logs_poll_logs self repo_id run_name start_time end_time descending None
         = (let evs = filter (in_time_range start_time end_time) [e1, e2, e3]
            in if descending = Some True then rev evs else evs)"
  using sink sort_key_three [OF m t, of "in_time_range start_time end_time"]
  by (cases descending) (simp_all add: poll_logs_def logs_poll_logs_def Let_def)

lemma poll_logs_bounded:
  "ev \<in> set (poll_logs logs_poll_logs self repo_id run_name start_time (Some end_time)
               descending diagnose)
   \<Longrightarrow> start_time \<le> timestamp ev \<and> timestamp ev < end_time"
  by (auto simp: poll_logs_def logs_poll_logs_def Let_def in_time_range_def
      split: if_splits option.splits)

text \<open>
  C6: let the log sink hold, for a run, three events of the user process with
  timestamps \<open>t1 < t2 < t3\<close>, on any pages and in any order. Then \<^verbatim>\<open>poll_logs\<close> from
  \<open>t1\<close> with \<^verbatim>\<open>descending=False\<close> yields them in the order \<open>t1, t2, t3\<close>, with
  \<^verbatim>\<open>descending=True\<close> in the order \<open>t3, t2, t1\<close>, and \<^verbatim>\<open>poll_logs\<close> from \<open>t2\<close> yields
  the events of \<open>t2\<close> and \<open>t3\<close> only. With an \<open>end_time\<close> every event yielded has its
  timestamp from \<open>start_time\<close> on and before \<open>end_time\<close>.
\<close>

theorem C6_poll_logs_order:
  assumes sink: "logs_client self (bucket_name self, repo_id, run_name)
                   = Some (user_pages, diagnostic_pages)"
    and m: "mset (concat user_pages) = {#e1, e2, e3#}"
    and t: "timestamp e1 < timestamp e2" "timestamp e2 < timestamp e3"
  shows "poll_logs logs_poll_logs self repo_id run_name (timestamp e1) None (Some False) None
           = [e1, e2, e3]
       \<and> poll_logs logs_poll_logs self repo_id run_name (timestamp e1) None (Some True) None
           = [e3, e2, e1]
       \<and> poll_logs logs_poll_logs self repo_id run_name (timestamp e2) None None None
           = [e2, e3]
       \<and> (\<forall>ev \<in> set (poll_logs logs_poll_logs self repo_id run_name start_time
                         (Some end_time) descending diagnose).
            start_time \<le> timestamp ev \<and> timestamp ev < end_time)"
  using t poll_logs_bounded [of _ self repo_id run_name start_time end_time descending diagnose]
  by (simp add: poll_logs_three [OF sink m t] in_time_range_def)

theorem C6_poll_logs_order_witness:
  "poll_logs logs_poll_logs logs_backend ''repo'' ''run'' 1 None (Some False) None
     = [log_event 1, log_event 2, log_event 3]
   \<and> poll_logs logs_poll_logs logs_backend ''repo'' ''run'' 1 None (Some True) None
     = [log_event 3, log_event 2, log_event 1]
   \<and> poll_logs logs_poll_logs logs_backend ''repo'' ''run'' 2 None None None
     = [log_event 2, log_event 3]
   \<and> list_all (\<lambda>ev. 1 \<le> timestamp ev \<and> timestamp ev < 3)
       (poll_logs logs_poll_logs logs_backend ''repo'' ''run'' 1 (Some 3) None (Some True))"
  using C6_poll_logs_order [of logs_backend "''repo''" "''run''" "[[log_event 2], [log_event 3, log_event 1]]"
      "[[log_event 0]]" "log_event 1" "log_event 2" "log_event 3" 1 3 None "Some True"]
  by (simp add: logs_backend_def example_sink_def log_event_def list_all_iff)

subsection \<open>The job of the notebook provider\<close>






subsection \<open>The service account of the GCP configurator\<close>

text \<open>
  C8: when the IAM create call fails with status 409, \<^verbatim>\<open>_get_or_create_service_account\<close>
  returns the email of the existing account instead of raising; with status 403 it
  raises a \<^verbatim>\<open>BackendConfigError\<close> with code \<^verbatim>\<open>not_enough_permissions\<close>. So
  \<^verbatim>\<open>create_config_auth_data_from_project_config\<close> with default credentials succeeds on a
  rerun, where the account exists already, provided the policy calls and the key check
  that follow succeed; the authorisation data then carries that email.
\<close>

theorem C8_service_account_bootstrap:
  "(iam_create_service_account gcp (self_credentials self) (''projects/'' @ self_project_id self)
      name = Inl (HttpError 409)
    \<longrightarrow> get_or_create_service_account gcp self name
        = Inr (get_service_account_email gcp (self_project_id self) name))
   \<and> (iam_create_service_account gcp (self_credentials self)
        (''projects/'' @ self_project_id self) name = Inl (HttpError 403)
    \<longrightarrow> (\<exists>e. get_or_create_service_account gcp self name = Inl (Raised_BackendConfigError e)
            \<and> code e = ''not_enough_permissions''))
   \<and> (pc_credentials project_config = GCPProjectDefaultCreds
      \<and> auth_default gcp = Inr (c, p)
      \<and> iam_create_service_account gcp c (''projects/'' @ p)
          (pc_bucket_name project_config @ ''-sa'') = Inl (HttpError 409)
      \<and> get_iam_policy gcp c p = Inr (Some policy)
      \<and> (\<forall>q. set_iam_policy gcp c p q = Inr ())
      \<and> (\<forall>email. create_service_account_key gcp c p email = Inr ())
    \<longrightarrow> gcp_create_config_auth_data_from_project_config gcp project_config
        = Inr (GCPProjectConfig.truncate project_config,
               [(''type'', ''default''),
                (''service_account_email'',
                 get_service_account_email gcp p (pc_bucket_name project_config @ ''-sa''))]))"
proof (intro conjI impI)
  assume "iam_create_service_account gcp (self_credentials self)
            (''projects/'' @ self_project_id self) name = Inl (HttpError 409)"
  then show "get_or_create_service_account gcp self name
        = Inr (get_service_account_email gcp (self_project_id self) name)"
    by (simp add: get_or_create_service_account_def)
next
  assume "iam_create_service_account gcp (self_credentials self)
            (''projects/'' @ self_project_id self) name = Inl (HttpError 403)"
  then show "\<exists>e. get_or_create_service_account gcp self name = Inl (Raised_BackendConfigError e)
            \<and> code e = ''not_enough_permissions''"
    by (simp add: get_or_create_service_account_def raise_BackendConfigError_def
        mk_BackendConfigError_def)
next
  assume h: "pc_credentials project_config = GCPProjectDefaultCreds
      \<and> auth_default gcp = Inr (c, p)
      \<and> iam_create_service_account gcp c (''projects/'' @ p)
          (pc_bucket_name project_config @ ''-sa'') = Inl (HttpError 409)
      \<and> get_iam_policy gcp c p = Inr (Some policy)
      \<and> (\<forall>q. set_iam_policy gcp c p q = Inr ())
      \<and> (\<forall>email. create_service_account_key gcp c p email = Inr ())"
  have a: "auth gcp [''type'' \<mapsto> ''default'']
           = Inr \<lparr> self_credentials = c, self_project_id = p \<rparr>"
    using h by (simp add: auth_def and_then_def dict_get_def sdk_call_def)
  have g: "get_or_create_service_account gcp \<lparr> self_credentials = c, self_project_id = p \<rparr>
             (pc_bucket_name project_config @ ''-sa'')
           = Inr (get_service_account_email gcp p (pc_bucket_name project_config @ ''-sa''))"
    using h by (simp add: get_or_create_service_account_def)
  have r: "grant_roles_to_service_account gcp \<lparr> self_credentials = c, self_project_id = p \<rparr> email
           = Inr ()" for email
    using h by (simp add: grant_roles_to_service_account_def http_403_to_config_error_def
        add_roles_to_policy_def and_then_def Let_def)
  have k: "check_if_can_create_service_account_key gcp
             \<lparr> self_credentials = c, self_project_id = p \<rparr> email = Inr ()" for email
    using h by (simp add: check_if_can_create_service_account_key_def)
  show "gcp_create_config_auth_data_from_project_config gcp project_config
        = Inr (GCPProjectConfig.truncate project_config,
               [(''type'', ''default''),
                (''service_account_email'',
                 get_service_account_email gcp p (pc_bucket_name project_config @ ''-sa''))])"
    using h by (simp add: gcp_create_config_auth_data_from_project_config_def Let_def a g r k
        and_then_def)
qed

theorem C8_service_account_bootstrap_witness:
  "get_or_create_service_account (example_gcp 409) example_gcp_self ''bucket-sa''
     = Inr ''bucket-sa@proj.iam.gserviceaccount.com''
   \<and> (\<exists>e. get_or_create_service_account (example_gcp 403) example_gcp_self ''bucket-sa''
            = Inl (Raised_BackendConfigError e) \<and> code e = ''not_enough_permissions'')
   \<and> gcp_create_config_auth_data_from_project_config (example_gcp 409) example_gcp_project
     = Inr (GCPProjectConfig.truncate example_gcp_project,
            [(''type'', ''default''),
             (''service_account_email'', ''bucket-sa@proj.iam.gserviceaccount.com'')])"
  using C8_service_account_bootstrap [of "example_gcp 409" example_gcp_self "''bucket-sa''" example_gcp_project "()"
               "''proj''" "[]"]
    C8_service_account_bootstrap [of "example_gcp 403" example_gcp_self "''bucket-sa''" example_gcp_project "()"
               "''proj''" "[]"]
  by (simp add: example_gcp_def example_gcp_self_def example_gcp_project_def)

subsection \<open>The errors of project configuration\<close>

lemma and_then_Inl:
  "and_then r f = Inl x \<longleftrightarrow> r = Inl x \<or> (\<exists>y. r = Inr y \<and> f y = Inl x)"
  by (cases r) (simp_all add: and_then_def)

lemma sdk_call_not_config_error: "sdk_call r \<noteq> Inl (Raised_BackendConfigError e)"
  by (cases r) (simp_all add: sdk_call_def)

lemma dict_get_not_config_error: "dict_get d k \<noteq> Inl (Raised_BackendConfigError e)"
  by (simp add: dict_get_def split: option.splits)

lemma raise_BackendConfigError_eq:
  "(raise_BackendConfigError m c f = Inl (Raised_BackendConfigError e))
   \<longleftrightarrow> e = mk_BackendConfigError m c f"
  by (auto simp: raise_BackendConfigError_def)

lemma raise_BackendConfigError_not_Inr [simp]: "raise_BackendConfigError m c f \<noteq> Inr y"
  by (simp add: raise_BackendConfigError_def)

lemma invalid_credentials_error:
  "raise_invalid_credentials_error (Some fs) = Inl (Raised_BackendConfigError e)
   \<Longrightarrow> code e = ''invalid_credentials'' \<and> BackendConfigError.fields e = fs"
  by (auto simp: raise_invalid_credentials_error_def raise_BackendConfigError_eq
      mk_BackendConfigError_def)

lemma valid_credentials_not_config_error:
  "valid_credentials aws session \<noteq> Inl (Raised_BackendConfigError e)"
  by (simp add: valid_credentials_def split: option.splits sdk_error.splits)

lemma validate_hub_bucket_error:
  "validate_hub_bucket aws session region b = Inl (Raised_BackendConfigError e)
   \<Longrightarrow> code e = ''invalid_bucket'' \<and> BackendConfigError.fields e = [[''s3_bucket_name'']]"
  by (auto simp: validate_hub_bucket_def raise_BackendConfigError_eq mk_BackendConfigError_def
      split: sum.splits sdk_error.splits if_splits)

lemma aws_get_hub_buckets_error:
  "aws_get_hub_buckets aws session region default_bucket = Inl (Raised_BackendConfigError e)
   \<Longrightarrow> code e = ''invalid_bucket'' \<and> BackendConfigError.fields e = [[''s3_bucket_name'']]"
  unfolding aws_get_hub_buckets_def
  by (auto simp: and_then_Inl sdk_call_not_config_error dest: validate_hub_bucket_error
      split: option.splits)

lemma get_hub_subnet_not_config_error:
  "get_hub_subnet aws session default_subnet \<noteq> Inl (Raised_BackendConfigError e)"
  unfolding get_hub_subnet_def
  by (simp add: and_then_Inl sdk_call_not_config_error)

lemma aws_check_credentials_error:
  "aws_check_credentials aws region credentials_data default_ok session
     = Inl (Raised_BackendConfigError e)
   \<Longrightarrow> code e = ''invalid_credentials''
       \<and> BackendConfigError.fields e
           = (if credentials_data ''type'' = Some ''access_key''
              then [[''credentials'', ''access_key''], [''credentials'', ''secret_key'']]
              else [[''credentials'']])"
  unfolding aws_check_credentials_def Let_def
  by (auto simp: and_then_Inl dict_get_not_config_error valid_credentials_not_config_error
      dict_get_def dest: invalid_credentials_error split: if_splits option.splits)

lemma aws_configure_project_error:
  assumes "aws_configure_project aws config_data = Inl (Raised_BackendConfigError e)"
  shows "code e \<in> {''invalid_config'', ''invalid_credentials'', ''invalid_bucket''}
       \<and> (code e = ''invalid_credentials''
            \<longrightarrow> (\<exists>credentials_data. cd_credentials config_data = Some credentials_data
                   \<and> BackendConfigError.fields e
                       = (if credentials_data ''type'' = Some ''access_key''
                          then [[''credentials'', ''access_key''],
                                [''credentials'', ''secret_key'']]
                          else [[''credentials'']])))
       \<and> (code e = ''invalid_bucket''
            \<longrightarrow> BackendConfigError.fields e = [[''s3_bucket_name'']])"
proof (cases "cd_region_name config_data \<noteq> None
               \<and> the (cd_region_name config_data) \<notin> set (map snd regions)")
  case True
  with assms have "e = mk_BackendConfigError
      (Some (''Invalid AWS region '' @ the (cd_region_name config_data))) None None"
    by (simp add: aws_configure_project_def raise_BackendConfigError_eq)
  then show ?thesis by (simp add: mk_BackendConfigError_def)
next
  case False
  with assms have "\<exists>credentials_data.
      cd_credentials config_data = Some credentials_data
      \<and> ((\<exists>ok session. aws_check_credentials aws (cd_region_name config_data)
                           credentials_data ok session = Inl (Raised_BackendConfigError e))
         \<or> (\<exists>session. aws_get_hub_buckets aws session (cd_region_name config_data)
                         (cd_bucket_name config_data) = Inl (Raised_BackendConfigError e)))"
    unfolding aws_configure_project_def Let_def
    by (auto simp: and_then_Inl valid_credentials_not_config_error
        get_hub_subnet_not_config_error split: option.splits if_splits) blast+
  then obtain credentials_data where
    cd: "cd_credentials config_data = Some credentials_data"
    and cases: "(\<exists>ok session. aws_check_credentials aws (cd_region_name config_data)
                           credentials_data ok session = Inl (Raised_BackendConfigError e))
         \<or> (\<exists>session. aws_get_hub_buckets aws session (cd_region_name config_data)
                         (cd_bucket_name config_data) = Inl (Raised_BackendConfigError e))"
    by blast
  from cases show ?thesis
  proof
    assume "\<exists>ok session. aws_check_credentials aws (cd_region_name config_data)
                           credentials_data ok session = Inl (Raised_BackendConfigError e)"
    then obtain ok session where
      "aws_check_credentials aws (cd_region_name config_data) credentials_data ok session
         = Inl (Raised_BackendConfigError e)"
      by blast
    from aws_check_credentials_error [OF this] cd show ?thesis by simp
  next
    assume "\<exists>session. aws_get_hub_buckets aws session (cd_region_name config_data)
                         (cd_bucket_name config_data) = Inl (Raised_BackendConfigError e)"
    then obtain session where
      "aws_get_hub_buckets aws session (cd_region_name config_data)
         (cd_bucket_name config_data) = Inl (Raised_BackendConfigError e)"
      by blast
    from aws_get_hub_buckets_error [OF this] show ?thesis by simp
  qed
qed

lemma default_or_first_not_config_error:
  "default_or_first d names \<noteq> Inl (Raised_BackendConfigError e)"
  by (simp add: default_or_first_def split: option.splits list.splits)

lemma get_hub_geographic_area_error:
  "get_hub_geographic_area a = Inl (Raised_BackendConfigError e) \<Longrightarrow> code e = ''invalid_config''"
  by (auto simp: get_hub_geographic_area_def Let_def raise_BackendConfigError_eq
      mk_BackendConfigError_def split: if_splits)

lemma get_hub_region_error:
  "get_hub_region gcp self location r = Inl (Raised_BackendConfigError e)
   \<Longrightarrow> code e = ''invalid_config''"
  unfolding get_hub_region_def Let_def
  by (auto simp: and_then_Inl sdk_call_not_config_error default_or_first_not_config_error
      raise_BackendConfigError_eq mk_BackendConfigError_def split: if_splits)

lemma get_hub_zone_error:
  "get_hub_zone gcp location region z = Inl (Raised_BackendConfigError e)
   \<Longrightarrow> code e = ''invalid_config''"
  unfolding get_hub_zone_def Let_def
  by (auto simp: and_then_Inl default_or_first_not_config_error
      raise_BackendConfigError_eq mk_BackendConfigError_def split: if_splits)

lemma gcp_get_hub_buckets_error:
  "gcp_get_hub_buckets gcp self region b = Inl (Raised_BackendConfigError e)
   \<Longrightarrow> code e = ''invalid_bucket'' \<and> BackendConfigError.fields e = [[''bucket_name'']]"
  unfolding gcp_get_hub_buckets_def Let_def
  by (auto simp: and_then_Inl sdk_call_not_config_error
      raise_BackendConfigError_eq mk_BackendConfigError_def split: if_splits)

lemma get_hub_vpc_subnet_error:
  "get_hub_vpc_subnet gcp self region v s = Inl (Raised_BackendConfigError e)
   \<Longrightarrow> code e = ''invalid_config''"
  unfolding get_hub_vpc_subnet_def Let_def
  by (auto simp: and_then_Inl sdk_call_not_config_error
      raise_BackendConfigError_eq mk_BackendConfigError_def split: if_splits)

lemma gcp_check_credentials_error:
  "gcp_check_credentials gcp credentials_data d = Inl (Raised_BackendConfigError e)
   \<Longrightarrow> code e = ''invalid_credentials''
       \<and> BackendConfigError.fields e
           = (if credentials_data ''type'' = Some ''service_account''
              then [[''credentials'', ''data'']]
              else [[''credentials'']])"
  unfolding gcp_check_credentials_def
  by (auto simp: and_then_Inl dict_get_not_config_error dict_get_def
      dest: invalid_credentials_error split: if_splits sum.splits option.splits)

lemma gcp_configure_project_error:
  assumes "gcp_configure_project gcp config_data = Inl (Raised_BackendConfigError e)"
  shows "code e \<in> {''invalid_config'', ''invalid_credentials'', ''invalid_bucket''}
       \<and> (code e = ''invalid_credentials''
            \<longrightarrow> (\<exists>credentials_data. gcd_credentials config_data = Some credentials_data
                   \<and> BackendConfigError.fields e
                       = (if credentials_data ''type'' = Some ''service_account''
                          then [[''credentials'', ''data'']]
                          else [[''credentials'']])))
       \<and> (code e = ''invalid_bucket''
            \<longrightarrow> BackendConfigError.fields e = [[''bucket_name'']])"
proof -
  from assms have "code e = ''invalid_config''
      \<or> (\<exists>credentials_data d. gcd_credentials config_data = Some credentials_data
            \<and> gcp_check_credentials gcp credentials_data d = Inl (Raised_BackendConfigError e))
      \<or> (\<exists>self region b. gcp_get_hub_buckets gcp self region b
                            = Inl (Raised_BackendConfigError e))"
    unfolding gcp_configure_project_def Let_def
    by (auto simp: and_then_Inl
        split: option.splits sum.splits sdk_error.splits prod.splits)
      (blast dest: get_hub_geographic_area_error get_hub_region_error
         get_hub_zone_error get_hub_vpc_subnet_error)+
  then consider (config) "code e = ''invalid_config''"
    | (creds) credentials_data d where "gcd_credentials config_data = Some credentials_data"
        "gcp_check_credentials gcp credentials_data d = Inl (Raised_BackendConfigError e)"
    | (bucket) self region b where
        "gcp_get_hub_buckets gcp self region b = Inl (Raised_BackendConfigError e)"
    by blast
  then show ?thesis
  proof cases
    case config
    then show ?thesis by simp
  next
    case creds
    from gcp_check_credentials_error [OF creds(2)] creds(1) show ?thesis by simp
  next
    case bucket
    from gcp_get_hub_buckets_error [OF bucket] show ?thesis by simp
  qed
qed

lemma auth_not_config_error: "auth gcp d \<noteq> Inl (Raised_BackendConfigError e)"
  unfolding auth_def
  by (auto simp: and_then_Inl dict_get_not_config_error sdk_call_not_config_error
      split: if_splits prod.splits)

lemma get_or_create_service_account_error:
  "get_or_create_service_account gcp self name = Inl (Raised_BackendConfigError e)
   \<Longrightarrow> code e = ''not_enough_permissions''"
  by (auto simp: get_or_create_service_account_def raise_BackendConfigError_eq
      mk_BackendConfigError_def split: sum.splits sdk_error.splits if_splits)

lemma http_403_to_config_error_error:
  "http_403_to_config_error msg r = Inl (Raised_BackendConfigError e)
   \<Longrightarrow> code e = ''not_enough_permissions''"
  by (auto simp: http_403_to_config_error_def raise_BackendConfigError_eq
      mk_BackendConfigError_def split: sum.splits sdk_error.splits if_splits)

lemma add_roles_to_policy_not_config_error:
  "add_roles_to_policy p m roles \<noteq> Inl (Raised_BackendConfigError e)"
  by (simp add: add_roles_to_policy_def Let_def split: option.splits)

lemma grant_roles_to_service_account_error:
  "grant_roles_to_service_account gcp self email = Inl (Raised_BackendConfigError e)
   \<Longrightarrow> code e = ''not_enough_permissions''"
  unfolding grant_roles_to_service_account_def Let_def
  by (auto simp: and_then_Inl add_roles_to_policy_not_config_error
      dest: http_403_to_config_error_error)

lemma check_if_can_create_service_account_key_error:
  "check_if_can_create_service_account_key gcp self email = Inl (Raised_BackendConfigError e)
   \<Longrightarrow> code e = ''not_enough_permissions''"
  by (auto simp: check_if_can_create_service_account_key_def raise_BackendConfigError_eq
      mk_BackendConfigError_def split: sum.splits sdk_error.splits)

lemma gcp_create_config_auth_data_error:
  "gcp_create_config_auth_data_from_project_config gcp project_config
     = Inl (Raised_BackendConfigError e)
   \<Longrightarrow> code e = ''not_enough_permissions''"
  unfolding gcp_create_config_auth_data_from_project_config_def Let_def
  by (auto simp: and_then_Inl auth_not_config_error
      dest: get_or_create_service_account_error grant_roles_to_service_account_error
        check_if_can_create_service_account_key_error
      split: if_splits)

text \<open>
  C4, as stated: every \<^verbatim>\<open>BackendConfigError\<close> of project configuration carries a code and
  a list of fields that is not empty, those for an invalid AWS region and for an
  invalid GCP area in particular. It fails: both are raised with a message only, so
  they carry the default code \<^verbatim>\<open>invalid_config\<close> and the empty list of fields.
\<close>

theorem C4_config_error_fields_counterexample:
  "aws_configure_project example_aws aws_config_invalid_region
     = Inl (Raised_BackendConfigError
              (BackendConfigError ''Invalid AWS region mars-1'' ''invalid_config'' []))
   \<and> get_hub_geographic_area (Some ''Mars'')
     = Inl (Raised_BackendConfigError
              (BackendConfigError ''Invalid GCP area Mars'' ''invalid_config'' []))"
  by (simp add: aws_configure_project_def aws_config_invalid_region_def regions_def
      raise_BackendConfigError_def mk_BackendConfigError_def get_hub_geographic_area_def
      GCP_LOCATIONS_def Let_def)

text \<open>
  C4, amended: every \<^verbatim>\<open>BackendConfigError\<close> raised by \<^verbatim>\<open>configure_project\<close> of the AWS
  and of the GCP configurator carries one of the codes \<^verbatim>\<open>invalid_config\<close>,
  \<^verbatim>\<open>invalid_credentials\<close>, \<^verbatim>\<open>invalid_bucket\<close>, and with the latter two the paths of
  the offending fields. With \<^verbatim>\<open>invalid_credentials\<close> these are
  \<^verbatim>\<open>credentials.access_key\<close> and \<^verbatim>\<open>credentials.secret_key\<close> for AWS credentials of type
  \<^verbatim>\<open>access_key\<close>, \<^verbatim>\<open>credentials.data\<close> for GCP credentials of type \<^verbatim>\<open>service_account\<close>,
  and \<^verbatim>\<open>credentials\<close> for any other type; with \<^verbatim>\<open>invalid_bucket\<close> it is
  \<^verbatim>\<open>s3_bucket_name\<close> for AWS and \<^verbatim>\<open>bucket_name\<close> for GCP. Every one raised by the GCP
  \<^verbatim>\<open>create_config_auth_data_from_project_config\<close> carries the code
  \<^verbatim>\<open>not_enough_permissions\<close>. An invalid AWS region and an invalid GCP area raise a
  \<^verbatim>\<open>BackendConfigError\<close> with the code \<^verbatim>\<open>invalid_config\<close>.
\<close>

theorem C4_config_error_code_and_fields:
  "(aws_configure_project aws config_data = Inl (Raised_BackendConfigError e1)
    \<longrightarrow> code e1 \<in> {''invalid_config'', ''invalid_credentials'', ''invalid_bucket''}
        \<and> (code e1 = ''invalid_credentials''
             \<longrightarrow> (\<exists>credentials_data. cd_credentials config_data = Some credentials_data
                    \<and> BackendConfigError.fields e1
                        = (if credentials_data ''type'' = Some ''access_key''
                           then [[''credentials'', ''access_key''],
                                 [''credentials'', ''secret_key'']]
                           else [[''credentials'']])))
        \<and> (code e1 = ''invalid_bucket''
             \<longrightarrow> BackendConfigError.fields e1 = [[''s3_bucket_name'']]))
   \<and> (gcp_configure_project gcp gcp_config = Inl (Raised_BackendConfigError e2)
    \<longrightarrow> code e2 \<in> {''invalid_config'', ''invalid_credentials'', ''invalid_bucket''}
        \<and> (code e2 = ''invalid_credentials''
             \<longrightarrow> (\<exists>credentials_data. gcd_credentials gcp_config = Some credentials_data
                    \<and> BackendConfigError.fields e2
                        = (if credentials_data ''type'' = Some ''service_account''
                           then [[''credentials'', ''data'']]
                           else [[''credentials'']])))
        \<and> (code e2 = ''invalid_bucket''
             \<longrightarrow> BackendConfigError.fields e2 = [[''bucket_name'']]))
   \<and> (gcp_create_config_auth_data_from_project_config gcp project_config
         = Inl (Raised_BackendConfigError e3)
    \<longrightarrow> code e3 = ''not_enough_permissions'')
   \<and> (cd_region_name config_data' = Some r \<and> r \<notin> set (map snd regions)
    \<longrightarrow> (\<exists>e. aws_configure_project aws config_data' = Inl (Raised_BackendConfigError e)
            \<and> code e = ''invalid_config''))
   \<and> (a \<notin> set (map loc_name GCP_LOCATIONS)
    \<longrightarrow> (\<exists>e. get_hub_geographic_area (Some a) = Inl (Raised_BackendConfigError e)
            \<and> code e = ''invalid_config''))"
proof -
  have aws: "aws_configure_project aws config_data = Inl (Raised_BackendConfigError e1)
    \<longrightarrow> code e1 \<in> {''invalid_config'', ''invalid_credentials'', ''invalid_bucket''}
        \<and> (code e1 = ''invalid_credentials''
             \<longrightarrow> (\<exists>credentials_data. cd_credentials config_data = Some credentials_data
                    \<and> BackendConfigError.fields e1
                        = (if credentials_data ''type'' = Some ''access_key''
                           then [[''credentials'', ''access_key''],
                                 [''credentials'', ''secret_key'']]
                           else [[''credentials'']])))
        \<and> (code e1 = ''invalid_bucket''
             \<longrightarrow> BackendConfigError.fields e1 = [[''s3_bucket_name'']])"
    by (rule impI) (rule aws_configure_project_error)
  have gcp: "gcp_configure_project gcp gcp_config = Inl (Raised_BackendConfigError e2)
    \<longrightarrow> code e2 \<in> {''invalid_config'', ''invalid_credentials'', ''invalid_bucket''}
        \<and> (code e2 = ''invalid_credentials''
             \<longrightarrow> (\<exists>credentials_data. gcd_credentials gcp_config = Some credentials_data
                    \<and> BackendConfigError.fields e2
                        = (if credentials_data ''type'' = Some ''service_account''
                           then [[''credentials'', ''data'']]
                           else [[''credentials'']])))
        \<and> (code e2 = ''invalid_bucket''
             \<longrightarrow> BackendConfigError.fields e2 = [[''bucket_name'']])"
    by (rule impI) (rule gcp_configure_project_error)
  have auth_data: "gcp_create_config_auth_data_from_project_config gcp project_config
         = Inl (Raised_BackendConfigError e3)
    \<longrightarrow> code e3 = ''not_enough_permissions''"
    by (rule impI) (rule gcp_create_config_auth_data_error)
  have region: "cd_region_name config_data' = Some r \<and> r \<notin> set (map snd regions)
    \<longrightarrow> (\<exists>e. aws_configure_project aws config_data' = Inl (Raised_BackendConfigError e)
            \<and> code e = ''invalid_config'')"
    by (simp add: aws_configure_project_def raise_BackendConfigError_def
        mk_BackendConfigError_def)
  have area: "a \<notin> set (map loc_name GCP_LOCATIONS)
    \<longrightarrow> (\<exists>e. get_hub_geographic_area (Some a) = Inl (Raised_BackendConfigError e)
            \<and> code e = ''invalid_config'')"
    by (simp add: get_hub_geographic_area_def Let_def raise_BackendConfigError_def
        mk_BackendConfigError_def)
  show ?thesis
    by (intro conjI aws gcp auth_data region area)
qed

theorem C4_config_error_code_and_fields_witness:
  "aws_configure_project example_aws aws_config_missing_bucket
     = Inl (Raised_BackendConfigError
              (BackendConfigError ''The bucket nobucket does not exist'' ''invalid_bucket''
                 [[''s3_bucket_name'']]))
   \<and> gcp_configure_project (example_gcp 403) gcp_config_bad_key
     = Inl (Raised_BackendConfigError
              (BackendConfigError ''Invalid credentials'' ''invalid_credentials''
                 [[''credentials'', ''data'']]))
   \<and> gcp_create_config_auth_data_from_project_config (example_gcp 403) example_gcp_project
     = Inl (Raised_BackendConfigError
              (BackendConfigError
                 ''Not enough permissions. Default credentials must have Service Account Admin role.''
                 ''not_enough_permissions'' []))
   \<and> cd_region_name aws_config_invalid_region = Some ''mars-1''
   \<and> ''mars-1'' \<notin> set (map snd regions)
   \<and> (\<exists>e. aws_configure_project example_aws aws_config_invalid_region
            = Inl (Raised_BackendConfigError e) \<and> code e = ''invalid_config'')
   \<and> ''Mars'' \<notin> set (map loc_name GCP_LOCATIONS)
   \<and> (\<exists>e. get_hub_geographic_area (Some ''Mars'') = Inl (Raised_BackendConfigError e)
            \<and> code e = ''invalid_config'')"
proof -
  have h1: "aws_configure_project example_aws aws_config_missing_bucket
     = Inl (Raised_BackendConfigError
              (BackendConfigError ''The bucket nobucket does not exist'' ''invalid_bucket''
                 [[''s3_bucket_name'']]))"
    by (simp add: aws_configure_project_def aws_config_missing_bucket_def example_aws_def
        regions_def new_Session_def valid_credentials_def and_then_def Let_def
        aws_check_credentials_def dict_get_def aws_get_hub_buckets_def validate_hub_bucket_def
        raise_BackendConfigError_def mk_BackendConfigError_def new_AWSProjectValues_def)
  have h2: "gcp_configure_project (example_gcp 403) gcp_config_bad_key
     = Inl (Raised_BackendConfigError
              (BackendConfigError ''Invalid credentials'' ''invalid_credentials''
                 [[''credentials'', ''data'']]))"
    by (simp add: gcp_configure_project_def gcp_config_bad_key_def example_gcp_def
        and_then_def Let_def gcp_check_credentials_def dict_get_def auth_def sdk_call_def
        raise_invalid_credentials_error_def raise_BackendConfigError_def
        mk_BackendConfigError_def new_GCPProjectValues_def)
  have h3: "gcp_create_config_auth_data_from_project_config (example_gcp 403) example_gcp_project
     = Inl (Raised_BackendConfigError
              (BackendConfigError
                 ''Not enough permissions. Default credentials must have Service Account Admin role.''
                 ''not_enough_permissions'' []))"
    by (simp add: gcp_create_config_auth_data_from_project_config_def example_gcp_project_def
        example_gcp_def and_then_def Let_def dict_get_def auth_def sdk_call_def
        get_or_create_service_account_def raise_BackendConfigError_def
        mk_BackendConfigError_def)
  have h4: "cd_region_name aws_config_invalid_region = Some ''mars-1''
            \<and> ''mars-1'' \<notin> set (map snd regions)"
    by (simp add: aws_config_invalid_region_def regions_def)
  have h5: "''Mars'' \<notin> set (map loc_name GCP_LOCATIONS)"
    by (simp add: GCP_LOCATIONS_def)
  show ?thesis
    using h1 h2 h3 h4 h5
      C4_config_error_code_and_fields [of example_aws aws_config_missing_bucket
            "BackendConfigError ''The bucket nobucket does not exist'' ''invalid_bucket''
               [[''s3_bucket_name'']]"
            "example_gcp 403" gcp_config_bad_key
            "BackendConfigError ''Invalid credentials'' ''invalid_credentials''
               [[''credentials'', ''data'']]"
            example_gcp_project
            "BackendConfigError
               ''Not enough permissions. Default credentials must have Service Account Admin role.''
               ''not_enough_permissions'' []"
            aws_config_invalid_region "''mars-1''" "''Mars''"]
    by simp
qed

end
